theory Spec2Isabelle
  imports Main "HOL-Library.AList"
begin

section \<open>JavaScript values\<close>

text \<open>
  The server (\<^verbatim>\<open>server.js\<close>) keeps its data in JSON files and moves JavaScript values
  between the request body, the files and the response. A value is modelled by \<open>jv\<close>:
  an object is its list of properties in insertion order, a number is an integer (the
  only numbers the server makes are \<^verbatim>\<open>Date.now()\<close> timestamps), and a string is a list
  of characters with codes below 256, which covers every literal of the source.
  JavaScript enumerates integer-like keys of an object before the others; no handler
  depends on the order of properties, and the model keeps the order of insertion.
\<close>

datatype jv =
    JUndef
  | JNull
  | JBool bool
  | JNum int
  | JStr string
  | JArr "jv list"
  | JObj "(string \<times> jv) list"

datatype js_error = TypeError

text \<open>The values that pass \<^verbatim>\<open>if (v)\<close>; \<^verbatim>\<open>!v\<close> holds of the others.\<close>

fun truthy :: "jv \<Rightarrow> bool" where
  "truthy JUndef = False"
| "truthy JNull = False"
| "truthy (JBool b) = b"
| "truthy (JNum n) = (n \<noteq> 0)"
| "truthy (JStr s) = (s \<noteq> [])"
| "truthy (JArr xs) = True"
| "truthy (JObj kvs) = True"

text \<open>Reading a property of \<^verbatim>\<open>null\<close> or \<^verbatim>\<open>undefined\<close> throws a TypeError.\<close>

fun nullish :: "jv \<Rightarrow> bool" where
  "nullish JUndef = True"
| "nullish JNull = True"
| "nullish v = False"

text \<open>
  \<^verbatim>\<open>v.k\<close> for a value that is not nullish. The server reads named properties only
  (\<^verbatim>\<open>id\<close>, \<^verbatim>\<open>login\<close>, \<^verbatim>\<open>senha\<close>, \<^verbatim>\<open>role\<close>, ...), never an index or \<^verbatim>\<open>length\<close>, so on an
  array or a primitive the result is \<^verbatim>\<open>undefined\<close>.
\<close>

fun get_prop :: "jv \<Rightarrow> string \<Rightarrow> jv" where
  "get_prop (JObj kvs) k = (case map_of kvs k of None \<Rightarrow> JUndef | Some v \<Rightarrow> v)"
| "get_prop v k = JUndef"

text \<open>
  \<^verbatim>\<open>o.k = v\<close>. On an object the property is replaced in place or appended. On a
  primitive the assignment is dropped (the file is not in strict mode); on an array it
  makes a named property that \<^verbatim>\<open>JSON.stringify\<close> never writes.
\<close>

fun set_prop :: "jv \<Rightarrow> string \<Rightarrow> jv \<Rightarrow> jv" where
  "set_prop (JObj kvs) k v = JObj (AList.update k v kvs)"
| "set_prop w k v = w"

text \<open>\<^verbatim>\<open>delete o.k\<close>.\<close>

fun delete_prop :: "jv \<Rightarrow> string \<Rightarrow> jv" where
  "delete_prop (JObj kvs) k = JObj (AList.delete k kvs)"
| "delete_prop w k = w"

text \<open>\<^verbatim>\<open>a === b\<close>: two objects or arrays parsed from different texts are never identical.\<close>

fun strict_eq :: "jv \<Rightarrow> jv \<Rightarrow> bool" where
  "strict_eq JUndef JUndef = True"
| "strict_eq JNull JNull = True"
| "strict_eq (JBool a) (JBool b) = (a = b)"
| "strict_eq (JNum a) (JNum b) = (a = b)"
| "strict_eq (JStr a) (JStr b) = (a = b)"
| "strict_eq a b = False"

subsection \<open>Numbers and strings\<close>

definition digit_char :: "nat \<Rightarrow> char" where
  "digit_char d = char_of (48 + d)"

function show_nat :: "nat \<Rightarrow> string" where
  "show_nat n = (if n < 10 then [digit_char n] else show_nat (n div 10) @ [digit_char (n mod 10)])"
  by pat_completeness auto
termination
  by (relation "measure (\<lambda>n. n)") auto

fun join_comma :: "string list \<Rightarrow> string" where
  "join_comma [] = []"
| "join_comma [s] = s"
| "join_comma (s # t # ss) = s @ '','' @ join_comma (t # ss)"

text \<open>
  JavaScript numbers are IEEE 754 doubles. Comparing a number with a string converts
  the string to a double, with a rounding that the language leaves in part to the
  implementation, and printing a number finds its shortest decimal form. These two
  operations are not modelled: they are parameters of the handlers. \<open>number_equals n s\<close>
  stands for \<^verbatim>\<open>n == s\<close>, for a number \<open>n\<close> and a string \<open>s\<close>, and \<open>number_string n\<close> for
  \<^verbatim>\<open>String(n)\<close>. Every theorem about a handler is stated and proved for all values of the
  parameters, so it holds of the handler under the conversions of the language.
\<close>

record number_conversions =
  number_equals :: "int \<Rightarrow> string \<Rightarrow> bool"
  number_string :: "int \<Rightarrow> string"

text \<open>\<^verbatim>\<open>String(v)\<close>; inside \<^verbatim>\<open>Array.prototype.join\<close> a nullish element is the empty string.\<close>

fun to_str :: "number_conversions \<Rightarrow> jv \<Rightarrow> string" where
  "to_str nums JUndef = ''undefined''"
| "to_str nums JNull = ''null''"
| "to_str nums (JBool b) = (if b then ''true'' else ''false'')"
| "to_str nums (JNum n) = number_string nums n"
| "to_str nums (JStr s) = s"
| "to_str nums (JArr xs) = join_comma (map (\<lambda>x. if nullish x then [] else to_str nums x) xs)"
| "to_str nums (JObj kvs) = ''[object Object]''"

text \<open>
  \<^verbatim>\<open>v == s\<close> for a string \<open>s\<close> (a route parameter): a string is compared as it is, a
  number through \<open>number_equals\<close>, a boolean as the number 0 or 1, an object or array
  through its string form; \<^verbatim>\<open>null\<close> and \<^verbatim>\<open>undefined\<close> equal no string.
\<close>

fun loose_eq_str :: "number_conversions \<Rightarrow> jv \<Rightarrow> string \<Rightarrow> bool" where
  "loose_eq_str nums JUndef s = False"
| "loose_eq_str nums JNull s = False"
| "loose_eq_str nums (JBool b) s = number_equals nums (if b then 1 else 0) s"
| "loose_eq_str nums (JNum n) s = number_equals nums n s"
| "loose_eq_str nums (JStr t) s = (t = s)"
| "loose_eq_str nums v s = (to_str nums v = s)"

subsection \<open>Spread and serialisation\<close>

text \<open>
  The own enumerable properties of a value, in order: those of an object, the indices
  of an array or of a string; none for the other primitives, \<^verbatim>\<open>null\<close> and \<^verbatim>\<open>undefined\<close>.
\<close>

fun own_props :: "jv \<Rightarrow> (string \<times> jv) list" where
  "own_props (JObj kvs) = kvs"
| "own_props (JArr xs) = zip (map show_nat [0..<length xs]) xs"
| "own_props (JStr s) = zip (map show_nat [0..<length s]) (map (\<lambda>c. JStr [c]) s)"
| "own_props v = []"

text \<open>\<^verbatim>\<open>{ ...acc, ...src }\<close>: each property of \<open>src\<close> is written into \<open>acc\<close>, left to right.\<close>

definition spread :: "(string \<times> jv) list \<Rightarrow> jv \<Rightarrow> (string \<times> jv) list" where
  "spread acc src = fold (\<lambda>kv a. AList.update (fst kv) (snd kv) a) (own_props src) acc"

text \<open>
  \<^verbatim>\<open>JSON.parse(JSON.stringify(v))\<close>: what a reader of the response or of the file sees.
  A property whose value is \<^verbatim>\<open>undefined\<close> is not written; an \<^verbatim>\<open>undefined\<close> array element
  is written as \<^verbatim>\<open>null\<close>.
\<close>

fun to_json :: "jv \<Rightarrow> jv" where
  "to_json (JArr xs) = JArr (map (\<lambda>x. if x = JUndef then JNull else to_json x) xs)"
| "to_json (JObj kvs) =
     JObj (map (\<lambda>kv. (fst kv, to_json (snd kv))) (filter (\<lambda>kv. snd kv \<noteq> JUndef) kvs))"
| "to_json v = v"

text \<open>
  The values \<^verbatim>\<open>JSON.parse\<close> returns: no \<^verbatim>\<open>undefined\<close> anywhere and no property bound twice.
\<close>

fun json_ok :: "jv \<Rightarrow> bool" where
  "json_ok JUndef = False"
| "json_ok (JArr xs) = list_all json_ok xs"
| "json_ok (JObj kvs) = (distinct (map fst kvs) \<and> list_all (\<lambda>kv. json_ok (snd kv)) kvs)"
| "json_ok v = True"


section \<open>Files, requests and replies\<close>

text \<open>
  A data file that is missing, unreadable or not JSON has no entry in \<open>files\<close>; a file
  that parses holds the parsed value. \<open>unwritable\<close> are the files \<^verbatim>\<open>fs.writeFile\<close> fails on.
\<close>

record store =
  files :: "string \<rightharpoonup> jv"
  unwritable :: "string set"

text \<open>\<^verbatim>\<open>readJSON\<close>: the parsed file, or \<^verbatim>\<open>[]\<close> when reading or parsing throws.\<close>

definition readJSON :: "store \<Rightarrow> string \<Rightarrow> jv" where
  "readJSON st filename = (case files st filename of None \<Rightarrow> JArr [] | Some v \<Rightarrow> v)"

text \<open>
  \<^verbatim>\<open>writeJSON\<close>: the file is replaced by the serialised data and the result is \<^verbatim>\<open>true\<close>;
  when writing throws the result is \<^verbatim>\<open>false\<close> (and the file is taken to be as before).
\<close>

definition writeJSON :: "store \<Rightarrow> string \<Rightarrow> jv \<Rightarrow> bool \<times> store" where
  "writeJSON st filename data =
     (if filename \<in> unwritable st then (False, st)
      else (True, st\<lparr>files := (files st)(filename \<mapsto> to_json data)\<rparr>))"

text \<open>
  The three readings of the clock: \<^verbatim>\<open>Date.now()\<close>, \<^verbatim>\<open>new Date().toISOString()\<close> and
  \<^verbatim>\<open>new Date().toLocaleString('pt-BR')\<close>.
\<close>

record clock =
  date_now :: int
  iso_string :: string
  locale_string :: string

text \<open>
  A request: the route parameter (\<^verbatim>\<open>req.params.id\<close>, \<^verbatim>\<open>req.params.cpf\<close>), the body that
  \<^verbatim>\<open>express.json()\<close> parsed, and the headers, which no handler reads.
\<close>

record request =
  param :: string
  body :: jv
  headers :: "(string \<times> string) list"

text \<open>
  \<open>Reply status payload\<close> is \<^verbatim>\<open>res.status(status).json(payload)\<close>, the payload as the
  client parses it. \<open>NoReply\<close>: the handler threw outside its \<^verbatim>\<open>try\<close> block.
\<close>

datatype reply = Reply nat jv | NoReply

definition res_json :: "jv \<Rightarrow> reply" where
  "res_json v = Reply 200 (to_json v)"

definition failure :: "string \<Rightarrow> jv" where
  "failure msg = JObj [(''success'', JBool False), (''message'', JStr msg)]"

definition success :: "string \<Rightarrow> jv" where
  "success msg = JObj [(''success'', JBool True), (''message'', JStr msg)]"

definition res_500 :: reply where
  "res_500 = Reply 500 (to_json (failure ''Erro interno do servidor''))"

definition medicos_json :: string where "medicos_json = ''medicos.json''"
definition usuarios_json :: string where "usuarios_json = ''usuarios.json''"
definition funcionarios_json :: string where "funcionarios_json = ''funcionarios.json''"
definition animais_json :: string where "animais_json = ''animais.json''"

text \<open>The accented letters of the source's literals, by code point.\<close>

definition a_acute :: char where "a_acute = CHR 0xE1"
definition a_tilde :: char where "a_tilde = CHR 0xE3"
definition c_cedilla :: char where "c_cedilla = CHR 0xE7"
definition o_acute :: char where "o_acute = CHR 0xF3"

definition pet_nao_encontrado :: string where
  "pet_nao_encontrado = ''Pet n'' @ [a_tilde] @ ''o encontrado''"

definition Recepcao :: string where
  "Recepcao = ''Recep'' @ [c_cedilla, a_tilde] @ ''o''"

definition Internacao :: string where
  "Internacao = ''Interna'' @ [c_cedilla, a_tilde] @ ''o''"

subsection \<open>Array methods\<close>

text \<open>Calling an array method on a value that is not an array throws a TypeError.\<close>

fun as_array :: "jv \<Rightarrow> js_error + jv list" where
  "as_array (JArr xs) = Inr xs"
| "as_array v = Inl TypeError"

text \<open>\<^verbatim>\<open>xs.findIndex(P)\<close>; \<open>None\<close> is -1. The scan stops at the first match or throw.\<close>

fun findIndex :: "(jv \<Rightarrow> js_error + bool) \<Rightarrow> jv list \<Rightarrow> js_error + nat option" where
  "findIndex P [] = Inr None"
| "findIndex P (x # xs) =
     (case P x of
        Inl e \<Rightarrow> Inl e
      | Inr True \<Rightarrow> Inr (Some 0)
      | Inr False \<Rightarrow>
          (case findIndex P xs of
             Inl e \<Rightarrow> Inl e
           | Inr None \<Rightarrow> Inr None
           | Inr (Some i) \<Rightarrow> Inr (Some (Suc i))))"

text \<open>\<^verbatim>\<open>xs.find(P)\<close>: the first match, or \<^verbatim>\<open>undefined\<close>.\<close>

fun find_js :: "(jv \<Rightarrow> js_error + bool) \<Rightarrow> jv list \<Rightarrow> js_error + jv" where
  "find_js P [] = Inr JUndef"
| "find_js P (x # xs) =
     (case P x of
        Inl e \<Rightarrow> Inl e
      | Inr True \<Rightarrow> Inr x
      | Inr False \<Rightarrow> find_js P xs)"

text \<open>\<^verbatim>\<open>xs.filter(P)\<close> and \<^verbatim>\<open>xs.map(f)\<close>.\<close>

fun filter_js :: "(jv \<Rightarrow> js_error + bool) \<Rightarrow> jv list \<Rightarrow> js_error + jv list" where
  "filter_js P [] = Inr []"
| "filter_js P (x # xs) =
     (case P x of
        Inl e \<Rightarrow> Inl e
      | Inr b \<Rightarrow>
          (case filter_js P xs of
             Inl e \<Rightarrow> Inl e
           | Inr ys \<Rightarrow> Inr (if b then x # ys else ys)))"

fun map_js :: "(jv \<Rightarrow> js_error + jv) \<Rightarrow> jv list \<Rightarrow> js_error + jv list" where
  "map_js f [] = Inr []"
| "map_js f (x # xs) =
     (case f x of
        Inl e \<Rightarrow> Inl e
      | Inr y \<Rightarrow>
          (case map_js f xs of
             Inl e \<Rightarrow> Inl e
           | Inr ys \<Rightarrow> Inr (y # ys)))"

text \<open>The callbacks \<^verbatim>\<open>p => p.id == id\<close> and \<^verbatim>\<open>m => m.login === login\<close>.\<close>

definition id_is :: "number_conversions \<Rightarrow> string \<Rightarrow> jv \<Rightarrow> js_error + bool" where
  "id_is nums i p =
     (if nullish p then Inl TypeError else Inr (loose_eq_str nums (get_prop p ''id'') i))"

definition login_is :: "jv \<Rightarrow> jv \<Rightarrow> js_error + bool" where
  "login_is login m =
     (if nullish m then Inl TypeError else Inr (strict_eq (get_prop m ''login'') login))"


section \<open>The handlers\<close>

subsection \<open>POST /api/login\<close>

text \<open>
  \<^verbatim>\<open>{ ...medico, tipo: t, senha: undefined }\<close>, the user of a veterinarian or a tutor, and
  the six named properties that make the user of a staff member.
\<close>

definition user_of :: "jv \<Rightarrow> string \<Rightarrow> jv" where
  "user_of r t =
     JObj (AList.update ''senha'' JUndef (AList.update ''tipo'' (JStr t) (spread [] r)))"

definition funcionario_user :: "jv \<Rightarrow> jv" where
  "funcionario_user f =
     JObj [(''id'', get_prop f ''id''), (''nome'', get_prop f ''nome''),
           (''login'', get_prop f ''login''), (''contato'', get_prop f ''contato''),
           (''role'', get_prop f ''role''), (''tipo'', JStr ''funcionario'')]"

definition login_ok :: "jv \<Rightarrow> jv" where
  "login_ok user = JObj [(''success'', JBool True), (''user'', user)]"

definition obrigatorios :: string where
  "obrigatorios = ''Login e senha s'' @ [a_tilde] @ ''o obrigat'' @ [o_acute] @ ''rios!''"

definition incorretos :: string where
  "incorretos = ''Usu'' @ [a_acute] @ ''rio ou senha incorretos!''"

text \<open>The third lookup of the handler, in \<^verbatim>\<open>funcionarios.json\<close>.\<close>

definition login_funcionarios :: "store \<Rightarrow> jv \<Rightarrow> jv \<Rightarrow> reply" where
  "login_funcionarios st login senha =
     (case as_array (readJSON st funcionarios_json) of
        Inl e \<Rightarrow> res_500
      | Inr funcionarios \<Rightarrow>
          (case find_js (login_is login) funcionarios of
             Inl e \<Rightarrow> res_500
           | Inr funcionario \<Rightarrow>
               if truthy funcionario \<and> strict_eq senha (get_prop funcionario ''senha'')
               then res_json (login_ok (funcionario_user funcionario))
               else res_json (failure incorretos)))"

text \<open>The second lookup, in \<^verbatim>\<open>usuarios.json\<close>, falling through to the third.\<close>

definition login_usuarios :: "store \<Rightarrow> jv \<Rightarrow> jv \<Rightarrow> reply" where
  "login_usuarios st login senha =
     (case as_array (readJSON st usuarios_json) of
        Inl e \<Rightarrow> res_500
      | Inr usuarios \<Rightarrow>
          (case find_js (login_is login) usuarios of
             Inl e \<Rightarrow> res_500
           | Inr tutor \<Rightarrow>
               if truthy tutor \<and> strict_eq senha (get_prop tutor ''senha'')
               then res_json (login_ok (user_of tutor ''tutor''))
               else login_funcionarios st login senha))"

definition post_login :: "store \<Rightarrow> request \<Rightarrow> reply" where
  "post_login st req =
     (if nullish (body req) then NoReply
      else
        let login = get_prop (body req) ''login''; senha = get_prop (body req) ''senha'' in
        if \<not> truthy login \<or> \<not> truthy senha then res_json (failure obrigatorios)
        else
          (case as_array (readJSON st medicos_json) of
             Inl e \<Rightarrow> res_500
           | Inr medicos \<Rightarrow>
               (case find_js (login_is login) medicos of
                  Inl e \<Rightarrow> res_500
                | Inr medico \<Rightarrow>
                    if truthy medico \<and> strict_eq senha (get_prop medico ''senha'')
                    then res_json (login_ok (user_of medico ''medico''))
                    else login_usuarios st login senha)))"

subsection \<open>POST /api/salvar-pet, GET /api/pets, GET /api/pets-tutor/:cpf\<close>

definition novoPet :: "clock \<Rightarrow> jv \<Rightarrow> jv" where
  "novoPet clk petData =
     JObj (AList.update ''dataCadastro'' (JStr (iso_string clk))
          (AList.update ''observacoes'' (JStr [])
          (AList.update ''anamnese'' JNull
          (AList.update ''tag'' (JStr ''green'')
          (spread [(''id'', JNum (date_now clk))] petData)))))"

definition salvar_pet :: "clock \<Rightarrow> store \<Rightarrow> request \<Rightarrow> reply \<times> store" where
  "salvar_pet clk st req =
     (case as_array (readJSON st animais_json) of
        Inl e \<Rightarrow> (res_500, st)
      | Inr animais \<Rightarrow>
          (case writeJSON st animais_json (JArr (animais @ [novoPet clk (body req)])) of
             (True, st') \<Rightarrow>
               (res_json (JObj [(''success'', JBool True), (''pet'', novoPet clk (body req))]), st')
           | (False, st') \<Rightarrow> (res_json (failure ''Erro ao salvar pet''), st')))"

definition get_pets :: "store \<Rightarrow> reply" where
  "get_pets st = res_json (JObj [(''success'', JBool True), (''pets'', readJSON st animais_json)])"

definition tutorCpf_is :: "string \<Rightarrow> jv \<Rightarrow> js_error + bool" where
  "tutorCpf_is cpf p =
     (if nullish p then Inl TypeError else Inr (strict_eq (get_prop p ''tutorCpf'') (JStr cpf)))"

definition get_pets_tutor :: "store \<Rightarrow> request \<Rightarrow> reply" where
  "get_pets_tutor st req =
     (case as_array (readJSON st animais_json) of
        Inl e \<Rightarrow> res_500
      | Inr animais \<Rightarrow>
          (case filter_js (tutorCpf_is (param req)) animais of
             Inl e \<Rightarrow> res_500
           | Inr pets \<Rightarrow> res_json (JObj [(''success'', JBool True), (''pets'', JArr pets)])))"

subsection \<open>The PUT handlers on one pet\<close>

text \<open>
  Each of these handlers reads \<^verbatim>\<open>animais.json\<close>, looks the pet up with
  \<^verbatim>\<open>findIndex(p => p.id == id)\<close>, answers \<open>pet_nao_encontrado\<close> at -1, changes
  \<^verbatim>\<open>animais[petIndex]\<close>, writes the whole array back and answers by the result of the
  write. \<open>update_pet\<close> is that common course; \<open>change\<close> is what the handler does to the pet.
\<close>

definition update_pet ::
  "number_conversions \<Rightarrow> store \<Rightarrow> string \<Rightarrow> (jv \<Rightarrow> jv) \<Rightarrow> string \<Rightarrow> string \<Rightarrow> reply \<times> store" where
  "update_pet nums st i change done_msg failed_msg =
     (case as_array (readJSON st animais_json) of
        Inl e \<Rightarrow> (res_500, st)
      | Inr animais \<Rightarrow>
          (case findIndex (id_is nums i) animais of
             Inl e \<Rightarrow> (res_500, st)
           | Inr None \<Rightarrow> (res_json (failure pet_nao_encontrado), st)
           | Inr (Some petIndex) \<Rightarrow>
               (case writeJSON st animais_json
                       (JArr (animais[petIndex := change (animais ! petIndex)])) of
                  (True, st') \<Rightarrow> (res_json (success done_msg), st')
                | (False, st') \<Rightarrow> (res_json (failure failed_msg), st'))))"

text \<open>\<^verbatim>\<open>if (!pet[k]) { pet[k] = {}; }\<close>\<close>

definition ensure_object :: "jv \<Rightarrow> string \<Rightarrow> jv" where
  "ensure_object pet k = (if \<not> truthy (get_prop pet k) then set_prop pet k (JObj []) else pet)"


















subsection \<open>GET /api/funcionarios and PUT /api/funcionarios/:id\<close>

definition safe_funcionario :: "jv \<Rightarrow> js_error + jv" where
  "safe_funcionario f =
     (if nullish f then Inl TypeError
      else Inr (JObj [(''id'', get_prop f ''id''), (''nome'', get_prop f ''nome''),
                      (''login'', get_prop f ''login''), (''contato'', get_prop f ''contato''),
                      (''role'', get_prop f ''role''), (''crmv'', get_prop f ''crmv'')]))"

definition get_funcionarios :: "store \<Rightarrow> reply" where
  "get_funcionarios st =
     (case as_array (readJSON st funcionarios_json) of
        Inl e \<Rightarrow> res_500
      | Inr funcionarios \<Rightarrow>
          (case map_js safe_funcionario funcionarios of
             Inl e \<Rightarrow> res_500
           | Inr safe \<Rightarrow>
               res_json (JObj [(''success'', JBool True), (''funcionarios'', JArr safe)])))"

definition nao_pode_ser_alterado :: string where
  "nao_pode_ser_alterado =
     ''Usu'' @ [a_acute] @ ''rio Veterin'' @ [a_acute] @ ''rio n'' @ [a_tilde]
       @ ''o pode ser alterado.''"

definition nao_podem_alterar :: string where
  "nao_podem_alterar =
     ''Funcion'' @ [a_acute] @ ''rios de '' @ Recepcao @ '' ou '' @ Internacao @ '' n''
       @ [a_tilde] @ ''o podem alterar o cargo.''"

definition so_vet_junior :: string where
  "so_vet_junior =
     ''Estagi'' @ [a_acute] @ ''rio s'' @ [o_acute] @ '' pode mudar para Vet junior.''"

definition so_medico_vet :: string where
  "so_medico_vet = ''Vet junior s'' @ [o_acute] @ '' pode mudar para Medico vet.''"

text \<open>
  The server-side validation of a role change: the message of the rule that rejects the
  update of \<open>current\<close> by \<open>updateData\<close>, or \<open>None\<close> when no rule does.
\<close>

definition role_change_rejected :: "jv \<Rightarrow> jv \<Rightarrow> string option" where
  "role_change_rejected current updateData =
     (if truthy (get_prop updateData ''role'')
         \<and> \<not> strict_eq (get_prop updateData ''role'') (get_prop current ''role'')
      then
        let from = get_prop current ''role''; to = get_prop updateData ''role'' in
        if strict_eq from (JStr ''Medico vet'') then Some nao_pode_ser_alterado
        else if (strict_eq from (JStr Recepcao) \<or> strict_eq from (JStr Internacao))
                \<and> \<not> strict_eq to from
        then Some nao_podem_alterar
        else if strict_eq from (JStr ''Estagiario'') \<and> \<not> strict_eq to (JStr ''Vet junior'')
        then Some so_vet_junior
        else if strict_eq from (JStr ''Vet junior'') \<and> \<not> strict_eq to (JStr ''Medico vet'')
        then Some so_medico_vet
        else None
      else None)"

text \<open>
  An \<^verbatim>\<open>Estagiario\<close> who is not being promoted to a veterinarian role gets no CRMV:
  \<^verbatim>\<open>delete updateData.crmv\<close>.
\<close>

definition strip_crmv :: "jv \<Rightarrow> jv \<Rightarrow> jv" where
  "strip_crmv current updateData =
     (if strict_eq (get_prop current ''role'') (JStr ''Estagiario'')
      then
        let targetRole = (if truthy (get_prop updateData ''role'')
                          then get_prop updateData ''role'' else get_prop current ''role'') in
        if \<not> (strict_eq targetRole (JStr ''Vet junior'') \<or> strict_eq targetRole (JStr ''Medico vet''))
        then delete_prop updateData ''crmv''
        else updateData
      else updateData)"

text \<open>
  \<^verbatim>\<open>allowed = { ...updateData }\<close> without \<^verbatim>\<open>id\<close> and \<^verbatim>\<open>dataCadastro\<close>, then
  \<^verbatim>\<open>{ ...funcionarios[idx], ...allowed }\<close>.
\<close>

definition apply_update :: "jv \<Rightarrow> jv \<Rightarrow> jv" where
  "apply_update current updateData =
     (let allowed = AList.delete ''dataCadastro'' (AList.delete ''id'' (spread [] updateData))
      in JObj (spread (spread [] current) (JObj allowed)))"

definition funcionario_nao_encontrado :: string where
  "funcionario_nao_encontrado =
     ''Funcion'' @ [a_acute] @ ''rio n'' @ [a_tilde] @ ''o encontrado''"

definition put_funcionarios ::
  "number_conversions \<Rightarrow> store \<Rightarrow> request \<Rightarrow> reply \<times> store" where
  "put_funcionarios nums st req =
     (case as_array (readJSON st funcionarios_json) of
        Inl e \<Rightarrow> (res_500, st)
      | Inr funcionarios \<Rightarrow>
          (case findIndex (id_is nums (param req)) funcionarios of
             Inl e \<Rightarrow> (res_500, st)
           | Inr None \<Rightarrow> (res_json (failure funcionario_nao_encontrado), st)
           | Inr (Some idx) \<Rightarrow>
               let current = funcionarios ! idx in
               if nullish (body req) then (res_500, st)
               else
                 (case role_change_rejected current (body req) of
                    Some msg \<Rightarrow> (res_json (failure msg), st)
                  | None \<Rightarrow>
                      let updated = apply_update current (strip_crmv current (body req)) in
                      (case writeJSON st funcionarios_json (JArr (funcionarios[idx := updated])) of
                         (True, st') \<Rightarrow>
                           (res_json
                              (JObj [(''success'', JBool True),
                                     (''message'', JStr (''Funcion'' @ [a_acute]
                                                          @ ''rio atualizado com sucesso'')),
                                     (''funcionario'',
                                      JObj (AList.delete ''senha'' (spread [] updated)))]),
                            st')
                       | (False, st') \<Rightarrow>
                           (res_json (failure (''Erro ao salvar funcion'' @ [a_acute] @ ''rio'')),
                            st')))))"


section \<open>Reading replies and collections\<close>

text \<open>What the client parses out of a reply; a handler that did not answer sent nothing.\<close>

fun payload :: "reply \<Rightarrow> jv" where
  "payload (Reply status v) = v"
| "payload NoReply = JUndef"

fun elems :: "jv \<Rightarrow> jv list" where
  "elems (JArr xs) = xs"
| "elems v = []"

definition keys_of :: "jv \<Rightarrow> string list" where
  "keys_of v = map fst (own_props v)"

text \<open>No two records of a collection carry the same login.\<close>

fun distinct_logins :: "jv list \<Rightarrow> bool" where
  "distinct_logins [] = True"
| "distinct_logins (r # rs) =
     (list_all (\<lambda>r'. \<not> strict_eq (get_prop r ''login'') (get_prop r' ''login'')) rs
      \<and> distinct_logins rs)"

text \<open>The record has the login and the password of the request.\<close>

definition credentials_match :: "jv \<Rightarrow> jv \<Rightarrow> jv \<Rightarrow> bool" where
  "credentials_match login senha r =
     (strict_eq (get_prop r ''login'') login \<and> strict_eq senha (get_prop r ''senha''))"

text \<open>
  Two records that differ at most in the stored password, which the password \<open>senha\<close>
  of a request passes for both or for neither; and two file contents that are such
  records one by one.
\<close>

definition senha_variant :: "jv \<Rightarrow> jv \<Rightarrow> jv \<Rightarrow> bool" where
  "senha_variant senha r1 r2 =
     (delete_prop r1 ''senha'' = delete_prop r2 ''senha''
      \<and> strict_eq senha (get_prop r1 ''senha'') = strict_eq senha (get_prop r2 ''senha''))"

fun senha_variants :: "jv \<Rightarrow> jv \<Rightarrow> jv \<Rightarrow> bool" where
  "senha_variants senha (JArr xs) (JArr ys) = list_all2 (senha_variant senha) xs ys"
| "senha_variants senha v w = (v = w)"

section \<open>A small clinic\<close>

subsection \<open>The number conversions of the examples\<close>

text \<open>
  The examples compare small whole numbers with their decimal numerals. \<open>decimals\<close> is
  the instance of the parameters they are run with: \<open>decimal_value s\<close> is the whole
  number that \<open>s\<close> denotes when, trimmed of white space, it is empty (the number 0) or
  an optionally signed decimal numeral, and \<open>None\<close> for every other string; a number equals
  the strings with its value, and is printed in decimal digits. For a number below
  \<open>2^53\<close> in size and a string of that form this is the comparison of the language, and
  the examples stay within it. For other strings (fractions, exponents, radix prefixes,
  \<^verbatim>\<open>Infinity\<close>) and for larger numbers it is not, and no theorem about the handlers is
  stated for \<open>decimals\<close>: each holds for every instance.
\<close>

definition show_int :: "int \<Rightarrow> string" where
  "show_int i = (if i < 0 then CHR ''-'' # show_nat (nat (- i)) else show_nat (nat i))"

definition is_digit :: "char \<Rightarrow> bool" where
  "is_digit c = ((48::nat) \<le> of_char c \<and> (of_char c :: nat) \<le> 57)"

definition is_space :: "char \<Rightarrow> bool" where
  "is_space c = ((of_char c :: nat) \<in> {9, 10, 11, 12, 13, 32, 160})"

definition trim :: "string \<Rightarrow> string" where
  "trim s = rev (dropWhile is_space (rev (dropWhile is_space s)))"

definition digits_value :: "string \<Rightarrow> nat" where
  "digits_value ds = foldl (\<lambda>acc c. 10 * acc + ((of_char c :: nat) - 48)) 0 ds"

definition decimal_value :: "string \<Rightarrow> int option" where
  "decimal_value s =
     (case trim s of
        [] \<Rightarrow> Some 0
      | c # cs \<Rightarrow>
          if c = CHR ''-'' \<and> cs \<noteq> [] \<and> list_all is_digit cs then Some (- int (digits_value cs))
          else if c = CHR ''+'' \<and> cs \<noteq> [] \<and> list_all is_digit cs then Some (int (digits_value cs))
          else if list_all is_digit (c # cs) then Some (int (digits_value (c # cs)))
          else None)"

definition decimals :: number_conversions where
  "decimals = \<lparr>number_equals = (\<lambda>n s. decimal_value s = Some n), number_string = show_int\<rparr>"

text \<open>The data of the examples: one record of each kind and a clock.\<close>

definition rex :: jv where
  "rex = JObj [(''id'', JNum 1), (''nome'', JStr ''Rex''), (''tutorCpf'', JStr ''12345678901''),
               (''tag'', JStr ''green''), (''anamnese'', JNull), (''observacoes'', JStr []),
               (''exames'', JObj [(''historicoClinico'', JStr ''saudavel''),
                                  (''dataExames'', JStr ''01/02/2024, 10:00:00'')])]"

definition mia :: jv where
  "mia = JObj [(''id'', JNum 2), (''nome'', JStr ''Mia''), (''tutorCpf'', JStr ''12345678901''),
               (''tag'', JStr ''red''), (''anamnese'', JNull), (''observacoes'', JStr [])]"

definition dra_ana :: jv where
  "dra_ana = JObj [(''nome'', JStr ''Ana''), (''login'', JStr ''ana''), (''crmv'', JStr ''1234''),
                   (''contato'', JStr ''11999990000''), (''senha'', JStr ''segredo'')]"

definition tutor_bia :: jv where
  "tutor_bia = JObj [(''nome'', JStr ''Bia''), (''cpf'', JStr ''12345678901''),
                     (''login'', JStr ''12345678901''), (''senha'', JStr ''abcdef'')]"

definition vet_caio :: jv where
  "vet_caio = JObj [(''id'', JNum 7), (''nome'', JStr ''Caio''), (''login'', JStr ''caio''),
                    (''contato'', JStr ''11988887777''), (''senha'', JStr ''s3nh4!''),
                    (''role'', JStr ''Medico vet''), (''crmv'', JStr ''9876''),
                    (''dataCadastro'', JStr ''2024-01-01T00:00:00.000Z'')]"

definition clinic :: store where
  "clinic = \<lparr>files = [medicos_json \<mapsto> JArr [dra_ana], usuarios_json \<mapsto> JArr [tutor_bia],
                       funcionarios_json \<mapsto> JArr [vet_caio], animais_json \<mapsto> JArr [rex, mia]],
             unwritable = {}\<rparr>"

definition no_files :: store where
  "no_files = \<lparr>files = Map.empty, unwritable = {}\<rparr>"

definition noon :: clock where
  "noon = \<lparr>date_now = 1709305200000, iso_string = ''2024-03-01T15:00:00.000Z'',
            locale_string = ''01/03/2024, 12:00:00''\<rparr>"

text \<open>
  The clinic after \<^verbatim>\<open>PUT /api/funcionarios/7\<close> with the body \<^verbatim>\<open>{"senha": ""}\<close>, and the
  clinic with every stored password changed.
\<close>

definition clinic_senha_vazia :: store where
  "clinic_senha_vazia =
     snd (put_funcionarios decimals clinic
            \<lparr>param = ''7'', body = JObj [(''senha'', JStr [])], headers = []\<rparr>)"

definition clinic_outras_senhas :: store where
  "clinic_outras_senhas =
     \<lparr>files = [medicos_json \<mapsto> JArr [set_prop dra_ana ''senha'' (JStr ''trocada'')],
               usuarios_json \<mapsto> JArr [set_prop tutor_bia ''senha'' (JStr ''ghijkl'')],
               funcionarios_json \<mapsto> JArr [set_prop vet_caio ''senha'' (JStr ''0utr4!'')],
               animais_json \<mapsto> JArr [rex, mia]],
      unwritable = {}\<rparr>"

section \<open>Missing files\<close>

lemma to_json_failure: "to_json (failure msg) = failure msg"
  by (simp add: failure_def)

lemma to_json_success: "to_json (success msg) = success msg"
  by (simp add: success_def)

text \<open>
  Claim C10. A data file that cannot be read or parsed is an empty collection:
  \<open>readJSON\<close> returns \<^verbatim>\<open>[]\<close> for it, so against a missing \<^verbatim>\<open>animais.json\<close> both
  \<^verbatim>\<open>GET /api/pets\<close> and \<^verbatim>\<open>GET /api/pets-tutor/:cpf\<close> answer \<^verbatim>\<open>success: true\<close> with an
  empty list of pets, and \<^verbatim>\<open>GET /api/funcionarios\<close> does the same against a missing
  \<^verbatim>\<open>funcionarios.json\<close>.
\<close>

theorem missing_file_reads_as_empty:
  assumes "files st animais_json = None"
  shows "(\<forall>f. files st f = None \<longrightarrow> readJSON st f = JArr [])
       \<and> get_pets st = Reply 200 (JObj [(''success'', JBool True), (''pets'', JArr [])])
       \<and> get_pets_tutor st req = Reply 200 (JObj [(''success'', JBool True), (''pets'', JArr [])])
       \<and> (files st funcionarios_json = None \<longrightarrow>
            get_funcionarios st
              = Reply 200 (JObj [(''success'', JBool True), (''funcionarios'', JArr [])]))"
proof -
  have r: "readJSON st f = JArr []" if "files st f = None" for f
    using that by (simp add: readJSON_def)
  have "get_pets st = Reply 200 (JObj [(''success'', JBool True), (''pets'', JArr [])])"
    by (simp add: get_pets_def r [OF assms] res_json_def)
  moreover have "get_pets_tutor st req
      = Reply 200 (JObj [(''success'', JBool True), (''pets'', JArr [])])"
    by (simp add: get_pets_tutor_def r [OF assms] res_json_def)
  moreover have "get_funcionarios st
      = Reply 200 (JObj [(''success'', JBool True), (''funcionarios'', JArr [])])"
    if "files st funcionarios_json = None"
    by (simp add: get_funcionarios_def r [OF that] res_json_def)
  ultimately show ?thesis using r by blast
qed

theorem missing_file_reads_as_empty_witness:
  "files no_files animais_json = None
   \<and> readJSON no_files animais_json = JArr []
   \<and> get_pets no_files = Reply 200 (JObj [(''success'', JBool True), (''pets'', JArr [])])
   \<and> get_pets_tutor no_files \<lparr>param = ''12345678901'', body = JObj [], headers = []\<rparr>
       = Reply 200 (JObj [(''success'', JBool True), (''pets'', JArr [])])"
proof -
  have h: "files no_files animais_json = None"
    by (simp add: no_files_def)
  from missing_file_reads_as_empty [OF h, of "\<lparr>param = ''12345678901'', body = JObj [], headers = []\<rparr>"]
  show ?thesis using h by blast
qed


section \<open>Properties of the value operations\<close>

lemma to_json_id: "json_ok v \<Longrightarrow> to_json v = v"
proof (induction v)
  case (JArr xs)
  have "map (\<lambda>x. if x = JUndef then JNull else to_json x) xs = xs"
  proof (rule map_idI)
    fix x assume x: "x \<in> set xs"
    with JArr.prems have ok: "json_ok x" by (simp add: list_all_iff)
    then have "x \<noteq> JUndef" by auto
    with JArr.IH [OF x ok] show "(if x = JUndef then JNull else to_json x) = x" by simp
  qed
  then show ?case by simp
next
  case (JObj kvs)
  have ok: "\<And>kv. kv \<in> set kvs \<Longrightarrow> json_ok (snd kv)"
    using JObj.prems by (simp add: list_all_iff)
  have f: "filter (\<lambda>kv. snd kv \<noteq> JUndef) kvs = kvs"
  proof (rule filter_True)
    show "\<forall>kv\<in>set kvs. snd kv \<noteq> JUndef" using ok by force
  qed
  have "map (\<lambda>kv. (fst kv, to_json (snd kv))) kvs = kvs"
  proof (rule map_idI)
    fix kv assume kv: "kv \<in> set kvs"
    have "snd kv \<in> Basic_BNFs.snds kv" by (cases kv) simp
    from JObj.IH [OF kv this ok [OF kv]] show "(fst kv, to_json (snd kv)) = kv" by simp
  qed
  with f show ?case by simp
qed simp_all

lemma map_of_fold_update:
  "map_of (fold (\<lambda>kv a. AList.update (fst kv) (snd kv) a) ps acc) = map_of acc ++ map_of (rev ps)"
proof (induction ps arbitrary: acc)
  case Nil
  show ?case by simp
next
  case (Cons p ps)
  show ?case
    by (rule ext) (simp add: Cons.IH update_conv' map_add_def split: option.splits)
qed

lemma map_of_rev_distinct: "distinct (map fst ps) \<Longrightarrow> map_of (rev ps) = map_of ps"
proof (induction ps)
  case Nil
  show ?case by simp
next
  case (Cons p ps)
  then have "fst p \<notin> dom (map_of ps)" by (simp add: dom_map_of_conv_image_fst)
  then have "map_of [p] ++ map_of ps = (map_of ps)(fst p \<mapsto> snd p)"
    by (auto simp: map_add_def fun_eq_iff split: option.splits)
  with Cons show ?case by simp
qed

lemma distinct_fold_update:
  "distinct (map fst acc) \<Longrightarrow>
   distinct (map fst (fold (\<lambda>kv a. AList.update (fst kv) (snd kv) a) ps acc))"
  by (induction ps arbitrary: acc) (simp_all add: distinct_update)


lemma get_prop_json_ok: "json_ok v \<Longrightarrow> get_prop v k = JUndef \<or> json_ok (get_prop v k)"
proof (cases v)
  case (JObj kvs)
  assume ok: "json_ok v"
  show ?thesis
  proof (cases "map_of kvs k")
    case None
    with JObj show ?thesis by simp
  next
    case (Some x)
    then have "(k, x) \<in> set kvs" by (rule map_of_SomeD)
    with ok JObj have "json_ok x" by (auto simp: list_all_iff)
    with JObj Some show ?thesis by simp
  qed
qed simp_all

lemma to_json_get_prop: "json_ok v \<Longrightarrow> to_json (get_prop v k) = get_prop v k"
  using get_prop_json_ok [of v k] by (auto simp: to_json_id)

lemma map_of_to_json_absent:
  "k \<notin> fst ` set kvs \<Longrightarrow>
   map_of (map (\<lambda>kv. (fst kv, to_json (snd kv))) (filter (\<lambda>kv. snd kv \<noteq> JUndef) kvs)) k = None"
  by (induction kvs) auto

lemma get_prop_to_json_obj:
  "distinct (map fst kvs) \<Longrightarrow> get_prop (to_json (JObj kvs)) k = to_json (get_prop (JObj kvs) k)"
proof (induction kvs)
  case Nil
  show ?case by simp
next
  case (Cons p ps)
  then have absent: "fst p \<notin> fst ` set ps" and IH: "get_prop (to_json (JObj ps)) k = to_json (get_prop (JObj ps) k)"
    by simp_all
  show ?case
  proof (cases "k = fst p")
    case True
    with absent map_of_to_json_absent [of k ps] show ?thesis by (cases "snd p = JUndef") simp_all
  next
    case False
    with IH show ?thesis by (cases "snd p = JUndef") simp_all
  qed
qed

lemma get_prop_to_json_present:
  "get_prop (JObj kvs) k \<noteq> JUndef \<Longrightarrow>
   get_prop (to_json (JObj kvs)) k = to_json (get_prop (JObj kvs) k)"
proof (induction kvs)
  case Nil
  then show ?case by simp
next
  case (Cons p ps)
  show ?case
  proof (cases "k = fst p")
    case True
    with Cons.prems show ?thesis by (cases "snd p = JUndef") simp_all
  next
    case False
    with Cons show ?thesis by (cases "snd p = JUndef") simp_all
  qed
qed

lemma to_json_arr_update:
  assumes "list_all json_ok xs" 
  shows "to_json (JArr (xs[n := p])) = JArr (xs[n := (if p = JUndef then JNull else to_json p)])"
proof -
  have "map (\<lambda>x. if x = JUndef then JNull else to_json x) xs = xs"
  proof (rule map_idI)
    fix x assume "x \<in> set xs"
    with assms have ok: "json_ok x" by (simp add: list_all_iff)
    then have "x \<noteq> JUndef" by auto
    with ok show "(if x = JUndef then JNull else to_json x) = x" by (simp add: to_json_id)
  qed
  then show ?thesis by (simp add: map_update)
qed


lemma findIndex_Some:
  "findIndex P xs = Inr (Some i) \<Longrightarrow> i < length xs \<and> P (xs ! i) = Inr True"
proof (induction xs arbitrary: i)
  case Nil
  then show ?case by simp
next
  case (Cons x xs)
  then show ?case
    by (cases i) (auto split: sum.splits bool.splits option.splits)
qed

lemma id_is_True_obj: "id_is nums i p = Inr True \<Longrightarrow> \<exists>kvs. p = JObj kvs"
  by (cases p) (simp_all add: id_is_def)



lemma update_pet_written:
  assumes "readJSON st animais_json = JArr animais"
    and "findIndex (id_is nums i) animais = Inr (Some n)"
    and "animais_json \<notin> unwritable st"
  shows "update_pet nums st i change done_msg failed_msg
         = (Reply 200 (success done_msg),
            st\<lparr>files := (files st)(animais_json \<mapsto> to_json (JArr (animais[n := change (animais ! n)])))\<rparr>)"
  using assms by (simp add: update_pet_def writeJSON_def res_json_def to_json_success)

lemma update_pet_unwritable:
  assumes "readJSON st animais_json = JArr animais"
    and "findIndex (id_is nums i) animais = Inr (Some n)"
    and "animais_json \<in> unwritable st"
  shows "update_pet nums st i change done_msg failed_msg = (Reply 200 (failure failed_msg), st)"
  using assms by (simp add: update_pet_def writeJSON_def res_json_def to_json_failure)




lemma matched_is_object:
  assumes "findIndex (id_is nums i) animais = Inr (Some n)"
  shows "n < length animais \<and> (\<exists>kvs. animais ! n = JObj kvs)"
  using findIndex_Some [OF assms] id_is_True_obj by blast

lemma json_ok_nth: "json_ok (JArr xs) \<Longrightarrow> n < length xs \<Longrightarrow> json_ok (xs ! n)"
  by (simp add: list_all_length)

text \<open>
  Every \<^verbatim>\<open>PUT\<close> handler on one pet goes through \<open>update_pet\<close>: whatever it does to the
  matched pet, the other pets and the other files are as before.
\<close>

lemma update_pet_touches_one_pet:
  assumes arr: "readJSON st animais_json = JArr animais"
    and ok: "json_ok (JArr animais)"
    and found: "findIndex (id_is nums i) animais = Inr (Some n)"
  shows "\<exists>animais'.
           readJSON (snd (update_pet nums st i change done_msg failed_msg)) animais_json = JArr animais'
           \<and> length animais' = length animais
           \<and> (\<forall>j<length animais. j \<noteq> n \<longrightarrow> animais' ! j = animais ! j)
           \<and> (\<forall>f. f \<noteq> animais_json \<longrightarrow>
                 files (snd (update_pet nums st i change done_msg failed_msg)) f = files st f)"
proof (cases "animais_json \<in> unwritable st")
  case True
  with arr show ?thesis by (simp add: update_pet_unwritable [OF arr found])
next
  case False
  from ok have all: "list_all json_ok animais" by simp
  let ?new = "if change (animais ! n) = JUndef then JNull else to_json (change (animais ! n))"
  have "snd (update_pet nums st i change done_msg failed_msg)
        = st\<lparr>files := (files st)(animais_json \<mapsto> JArr (animais[n := ?new]))\<rparr>"
    using False
    by (simp add: update_pet_written [OF arr found] to_json_arr_update [OF all]
        del: to_json.simps)
  then show ?thesis by (simp add: readJSON_def)
qed





section \<open>Registering a pet\<close>

lemma to_json_arr_append:
  assumes "list_all json_ok xs" and "p \<noteq> JUndef"
  shows "to_json (JArr (xs @ [p])) = JArr (xs @ [to_json p])"
proof -
  have "map (\<lambda>x. if x = JUndef then JNull else to_json x) xs = xs"
  proof (rule map_idI)
    fix x assume "x \<in> set xs"
    with assms have ok: "json_ok x" by (simp add: list_all_iff)
    then have "x \<noteq> JUndef" by auto
    with ok show "(if x = JUndef then JNull else to_json x) = x" by (simp add: to_json_id)
  qed
  with assms(2) show ?thesis by simp
qed

lemma novoPet_fields:
  "get_prop (to_json (novoPet clk petData)) ''tag'' = JStr ''green''"
  "get_prop (to_json (novoPet clk petData)) ''anamnese'' = JNull"
  "get_prop (to_json (novoPet clk petData)) ''observacoes'' = JStr []"
proof -
  let ?kvs = "AList.update ''dataCadastro'' (JStr (iso_string clk))
          (AList.update ''observacoes'' (JStr [])
          (AList.update ''anamnese'' JNull
          (AList.update ''tag'' (JStr ''green'')
          (spread [(''id'', JNum (date_now clk))] petData))))"
  have t: "get_prop (JObj ?kvs) ''tag'' = JStr ''green''"
    and a: "get_prop (JObj ?kvs) ''anamnese'' = JNull"
    and b: "get_prop (JObj ?kvs) ''observacoes'' = JStr []"
    by (simp_all add: update_conv')
  from t have "get_prop (to_json (JObj ?kvs)) ''tag'' = to_json (get_prop (JObj ?kvs) ''tag'')"
    by (intro get_prop_to_json_present) simp
  with t show "get_prop (to_json (novoPet clk petData)) ''tag'' = JStr ''green''"
    by (simp add: novoPet_def del: to_json.simps(2))
  from a have "get_prop (to_json (JObj ?kvs)) ''anamnese'' = to_json (get_prop (JObj ?kvs) ''anamnese'')"
    by (intro get_prop_to_json_present) simp
  with a show "get_prop (to_json (novoPet clk petData)) ''anamnese'' = JNull"
    by (simp add: novoPet_def del: to_json.simps(2))
  from b have "get_prop (to_json (JObj ?kvs)) ''observacoes'' = to_json (get_prop (JObj ?kvs) ''observacoes'')"
    by (intro get_prop_to_json_present) simp
  with b show "get_prop (to_json (novoPet clk petData)) ''observacoes'' = JStr []"
    by (simp add: novoPet_def del: to_json.simps(2))
qed

text \<open>
  Claim C5. \<^verbatim>\<open>POST /api/salvar-pet\<close>, when \<^verbatim>\<open>animais.json\<close> holds a collection and the
  write goes through, appends exactly one record and leaves the stored pets as they were;
  whatever the body is, the new record has \<^verbatim>\<open>tag\<close> \<^verbatim>\<open>'green'\<close>, \<^verbatim>\<open>anamnese\<close> \<^verbatim>\<open>null\<close> and
  \<^verbatim>\<open>observacoes\<close> \<^verbatim>\<open>''\<close>, and the reply is \<^verbatim>\<open>success: true\<close> with that record.
\<close>

theorem salvar_pet_appends:
  assumes arr: "readJSON st animais_json = JArr animais"
    and ok: "json_ok (JArr animais)"
    and w: "animais_json \<notin> unwritable st"
  shows "\<exists>pet st'. salvar_pet clk st req
                     = (Reply 200 (JObj [(''success'', JBool True), (''pet'', pet)]), st')
           \<and> readJSON st' animais_json = JArr (animais @ [pet])
           \<and> (\<forall>f. f \<noteq> animais_json \<longrightarrow> files st' f = files st f)
           \<and> get_prop pet ''tag'' = JStr ''green''
           \<and> get_prop pet ''anamnese'' = JNull
           \<and> get_prop pet ''observacoes'' = JStr []"
proof -
  let ?pet = "to_json (novoPet clk (body req))"
  let ?st' = "st\<lparr>files := (files st)(animais_json \<mapsto> JArr (animais @ [?pet]))\<rparr>"
  have ne: "novoPet clk (body req) \<noteq> JUndef" by (simp add: novoPet_def)
  from ok have all: "list_all json_ok animais" by simp
  have "salvar_pet clk st req = (Reply 200 (JObj [(''success'', JBool True), (''pet'', ?pet)]), ?st')"
    using arr w ne
    by (simp add: salvar_pet_def writeJSON_def res_json_def to_json_arr_append [OF all ne]
        del: to_json.simps(1))
  moreover have "readJSON ?st' animais_json = JArr (animais @ [?pet])"
    by (simp add: readJSON_def)
  moreover have "\<forall>f. f \<noteq> animais_json \<longrightarrow> files ?st' f = files st f" by simp
  ultimately show ?thesis using novoPet_fields [of clk "body req"] by blast
qed

theorem salvar_pet_appends_witness:
  "readJSON clinic animais_json = JArr [rex, mia]
   \<and> json_ok (JArr [rex, mia])
   \<and> animais_json \<notin> unwritable clinic
   \<and> length (elems (readJSON (snd (salvar_pet noon clinic
        \<lparr>param = [], body = JObj [(''nome'', JStr ''Tom''), (''tag'', JStr ''red'')], headers = []\<rparr>))
        animais_json)) = 3
   \<and> get_prop (get_prop (payload (fst (salvar_pet noon clinic
        \<lparr>param = [], body = JObj [(''nome'', JStr ''Tom''), (''tag'', JStr ''red'')], headers = []\<rparr>)))
        ''pet'') ''tag'' = JStr ''green''"
proof -
  let ?req = "\<lparr>param = [], body = JObj [(''nome'', JStr ''Tom''), (''tag'', JStr ''red'')], headers = []\<rparr>"
  have h1: "readJSON clinic animais_json = JArr [rex, mia]"
    by (simp add: readJSON_def clinic_def animais_json_def)
  have h2: "json_ok (JArr [rex, mia])"
    by code_simp
  have h3: "animais_json \<notin> unwritable clinic"
    by (simp add: clinic_def)
  from salvar_pet_appends [OF h1 h2 h3, of noon ?req] obtain pet st' where
    a: "salvar_pet noon clinic ?req = (Reply 200 (JObj [(''success'', JBool True), (''pet'', pet)]), st')"
    and b: "readJSON st' animais_json = JArr ([rex, mia] @ [pet])"
    and c: "get_prop pet ''tag'' = JStr ''green''"
    by blast
  from a b c h1 h2 h3 show ?thesis by simp
qed

section \<open>Updating a staff member\<close>

lemma map_of_spread: "map_of (spread acc src) = map_of acc ++ map_of (rev (own_props src))"
  by (simp add: spread_def map_of_fold_update)

lemma distinct_spread: "distinct (map fst acc) \<Longrightarrow> distinct (map fst (spread acc src))"
  by (simp add: spread_def distinct_fold_update)

lemma map_of_rev_absent: "k \<notin> fst ` set ps \<Longrightarrow> map_of (rev ps) k = None"
  by (simp add: map_of_eq_None_iff)

lemma get_prop_spread_copy:
  "distinct (map fst kvs) \<Longrightarrow> get_prop (JObj (spread [] (JObj kvs))) k = get_prop (JObj kvs) k"
  by (simp add: map_of_spread map_of_rev_distinct)

lemma apply_update_keeps:
  assumes "distinct (map fst kvs)" and "k = ''id'' \<or> k = ''dataCadastro''"
  shows "get_prop (apply_update (JObj kvs) updateData) k = get_prop (JObj kvs) k"
proof -
  let ?allowed = "AList.delete ''dataCadastro'' (AList.delete ''id'' (spread [] updateData))"
  from assms(2) have "k \<notin> fst ` set ?allowed"
    by (auto simp: AList.delete_eq)
  then have "map_of (rev ?allowed) k = None" by (rule map_of_rev_absent)
  then show ?thesis
    using assms(1)
    by (simp add: apply_update_def map_of_spread map_of_rev_distinct map_add_def)
qed

lemma apply_update_distinct:
  "\<exists>kvs'. apply_update current updateData = JObj kvs' \<and> distinct (map fst kvs')"
  by (simp add: apply_update_def distinct_spread)

lemma put_funcionarios_store:
  assumes "readJSON st funcionarios_json = JArr funcionarios"
  shows "snd (put_funcionarios nums st req) = st
       \<or> (\<exists>idx. findIndex (id_is nums (param req)) funcionarios = Inr (Some idx)
            \<and> role_change_rejected (funcionarios ! idx) (body req) = None
            \<and> snd (put_funcionarios nums st req)
                = st\<lparr>files := (files st)(funcionarios_json \<mapsto>
                      to_json (JArr (funcionarios[idx :=
                        apply_update (funcionarios ! idx)
                          (strip_crmv (funcionarios ! idx) (body req))])))\<rparr>)"
  using assms
  by (auto simp: put_funcionarios_def writeJSON_def Let_def
      split: sum.splits option.splits if_splits)


text \<open>
  Claim C9. \<^verbatim>\<open>PUT /api/funcionarios/:id\<close> never changes \<^verbatim>\<open>id\<close> or \<^verbatim>\<open>dataCadastro\<close>: for
  every request, also one whose body has these keys, each record of the collection reads
  the same \<^verbatim>\<open>id\<close> and \<^verbatim>\<open>dataCadastro\<close> after the request as before it.
\<close>

theorem put_funcionarios_keeps_id:
  assumes arr: "readJSON st funcionarios_json = JArr funcionarios"
    and ok: "json_ok (JArr funcionarios)"
  shows "\<exists>funcionarios'.
           readJSON (snd (put_funcionarios nums st req)) funcionarios_json = JArr funcionarios'
           \<and> length funcionarios' = length funcionarios
           \<and> (\<forall>j<length funcionarios.
                 get_prop (funcionarios' ! j) ''id'' = get_prop (funcionarios ! j) ''id''
                 \<and> get_prop (funcionarios' ! j) ''dataCadastro''
                     = get_prop (funcionarios ! j) ''dataCadastro'')"
  using put_funcionarios_store [OF arr, of nums req]
proof (elim disjE exE conjE)
  assume "snd (put_funcionarios nums st req) = st"
  with arr show ?thesis by simp
next
  fix idx
  let ?cur = "funcionarios ! idx"
  let ?upd = "apply_update ?cur (strip_crmv ?cur (body req))"
  assume found: "findIndex (id_is nums (param req)) funcionarios = Inr (Some idx)"
    and st': "snd (put_funcionarios nums st req)
                = st\<lparr>files := (files st)(funcionarios_json \<mapsto>
                      to_json (JArr (funcionarios[idx := ?upd])))\<rparr>"
  from matched_is_object [OF found] obtain kvs where n: "idx < length funcionarios"
    and cur: "?cur = JObj kvs" by blast
  from json_ok_nth [OF ok n] cur have okc: "json_ok (JObj kvs)" by simp
  then have dist: "distinct (map fst kvs)" by simp
  from apply_update_distinct [of ?cur "strip_crmv ?cur (body req)"] obtain kvs' where
    upd: "?upd = JObj kvs'" and dist': "distinct (map fst kvs')" by blast
  from ok have all: "list_all json_ok funcionarios" by simp
  have keep: "get_prop (to_json ?upd) k = get_prop ?cur k"
    if k: "k = ''id'' \<or> k = ''dataCadastro''" for k
  proof -
    have "get_prop (to_json ?upd) k = to_json (get_prop ?upd k)"
      unfolding upd by (rule get_prop_to_json_obj [OF dist'])
    also have "get_prop ?upd k = get_prop (JObj kvs) k"
      unfolding cur by (rule apply_update_keeps [OF dist k])
    also have "to_json (get_prop (JObj kvs) k) = get_prop (JObj kvs) k"
      by (rule to_json_get_prop [OF okc])
    finally show ?thesis by (simp add: cur)
  qed
  have written: "readJSON (snd (put_funcionarios nums st req)) funcionarios_json
              = JArr (funcionarios[idx := to_json ?upd])"
    by (simp add: st' readJSON_def to_json_arr_update [OF all] upd del: to_json.simps)
  have "get_prop (funcionarios[idx := to_json ?upd] ! j) k = get_prop (funcionarios ! j) k"
    if "j < length funcionarios" and "k = ''id'' \<or> k = ''dataCadastro''" for j k
    using that keep by (cases "j = idx") simp_all
  with written show ?thesis by auto
qed

theorem put_funcionarios_keeps_id_witness:
  "readJSON clinic funcionarios_json = JArr [vet_caio]
   \<and> json_ok (JArr [vet_caio])
   \<and> get_prop (payload (fst (put_funcionarios decimals clinic
        \<lparr>param = ''7'', body = JObj [(''id'', JNum 8), (''dataCadastro'', JStr ''x''), (''nome'', JStr ''Caio B'')],
         headers = []\<rparr>))) ''success'' = JBool True
   \<and> get_prop (elems (readJSON (snd (put_funcionarios decimals clinic
        \<lparr>param = ''7'', body = JObj [(''id'', JNum 8), (''dataCadastro'', JStr ''x''), (''nome'', JStr ''Caio B'')],
         headers = []\<rparr>)) funcionarios_json) ! 0) ''id'' = JNum 7
   \<and> get_prop (elems (readJSON (snd (put_funcionarios decimals clinic
        \<lparr>param = ''7'', body = JObj [(''id'', JNum 8), (''dataCadastro'', JStr ''x''), (''nome'', JStr ''Caio B'')],
         headers = []\<rparr>)) funcionarios_json) ! 0) ''dataCadastro'' = JStr ''2024-01-01T00:00:00.000Z''"
proof -
  let ?req = "\<lparr>param = ''7'', body = JObj [(''id'', JNum 8), (''dataCadastro'', JStr ''x''), (''nome'', JStr ''Caio B'')],
         headers = []\<rparr>"
  have h1: "readJSON clinic funcionarios_json = JArr [vet_caio]"
    by (simp add: readJSON_def clinic_def animais_json_def funcionarios_json_def)
  have h2: "json_ok (JArr [vet_caio])"
    by code_simp
  have s: "get_prop (payload (fst (put_funcionarios decimals clinic ?req))) ''success'' = JBool True"
    by code_simp
  have i: "get_prop vet_caio ''id'' = JNum 7"
    and d: "get_prop vet_caio ''dataCadastro'' = JStr ''2024-01-01T00:00:00.000Z''"
    by code_simp+
  from put_funcionarios_keeps_id [OF h1 h2, of decimals ?req] obtain fs' where
    a: "readJSON (snd (put_funcionarios decimals clinic ?req)) funcionarios_json = JArr fs'"
    and b: "\<forall>j<length [vet_caio].
                 get_prop (fs' ! j) ''id'' = get_prop ([vet_caio] ! j) ''id''
                 \<and> get_prop (fs' ! j) ''dataCadastro'' = get_prop ([vet_caio] ! j) ''dataCadastro''"
    by blast
  from b i d have "get_prop (fs' ! 0) ''id'' = JNum 7"
    and "get_prop (fs' ! 0) ''dataCadastro'' = JStr ''2024-01-01T00:00:00.000Z''"
    by simp_all
  with a h1 h2 s show ?thesis by simp
qed

lemma strict_eq_JStr: "strict_eq a (JStr s) \<longleftrightarrow> a = JStr s"
  by (cases a) auto

lemma role_change_rejected_rules:
  assumes "truthy (get_prop updateData ''role'')"
    and "\<not> strict_eq (get_prop updateData ''role'') (get_prop current ''role'')"
  shows "role_change_rejected current updateData \<noteq> None \<longleftrightarrow>
           get_prop current ''role'' = JStr ''Medico vet''
         \<or> get_prop current ''role'' = JStr Recepcao
         \<or> get_prop current ''role'' = JStr Internacao
         \<or> (get_prop current ''role'' = JStr ''Estagiario''
             \<and> get_prop updateData ''role'' \<noteq> JStr ''Vet junior'')
         \<or> (get_prop current ''role'' = JStr ''Vet junior''
             \<and> get_prop updateData ''role'' \<noteq> JStr ''Medico vet'')"
  using assms by (auto simp: role_change_rejected_def strict_eq_JStr Let_def)

lemma put_funcionarios_rejected:
  assumes "readJSON st funcionarios_json = JArr funcionarios"
    and "findIndex (id_is nums (param req)) funcionarios = Inr (Some idx)"
    and "\<not> nullish (body req)"
    and "role_change_rejected (funcionarios ! idx) (body req) = Some msg"
  shows "put_funcionarios nums st req
         = (Reply 200 (JObj [(''success'', JBool False), (''message'', JStr msg)]), st)"
  using assms by (simp add: put_funcionarios_def res_json_def failure_def)

text \<open>
  Claim C2. The rules of the role change are those of \<open>role_change_rejected\<close>, and a
  rejected request leaves the store as it was (the two lemmas above). But the rules are
  only consulted when the role of the request is truthy: for a \<^verbatim>\<open>Medico vet\<close>, the body
  \<^verbatim>\<open>{"role": ""}\<close> passes unchecked, the reply is \<^verbatim>\<open>success: true\<close> and the stored role
  becomes the empty string.
\<close>

theorem medico_vet_role_changed_by_empty_role:
  "get_prop vet_caio ''role'' = JStr ''Medico vet''
   \<and> readJSON clinic funcionarios_json = JArr [vet_caio]
   \<and> get_prop (payload (fst (put_funcionarios decimals clinic
        \<lparr>param = ''7'', body = JObj [(''role'', JStr [])], headers = []\<rparr>))) ''success'' = JBool True
   \<and> get_prop (elems (readJSON (snd (put_funcionarios decimals clinic
        \<lparr>param = ''7'', body = JObj [(''role'', JStr [])], headers = []\<rparr>)) funcionarios_json) ! 0)
        ''role'' = JStr []"
  by code_simp


section \<open>Merging exam and vaccination data\<close>

lemma get_prop_set_prop:
  "get_prop (set_prop (JObj kvs) k v) k' = (if k' = k then v else get_prop (JObj kvs) k')"
  by (simp add: update_conv')

lemma ensure_object_obj:
  "\<exists>kvs'. ensure_object (JObj kvs) k = JObj kvs'
      \<and> (distinct (map fst kvs) \<longrightarrow> distinct (map fst kvs'))
      \<and> get_prop (JObj kvs') k = (if truthy (get_prop (JObj kvs) k) then get_prop (JObj kvs) k else JObj [])"
  by (simp add: ensure_object_def distinct_update update_conv')










section \<open>Appending medical sub-records\<close>









section \<open>Logging in\<close>

lemma strict_eq_same: "strict_eq a c \<Longrightarrow> strict_eq b c \<Longrightarrow> strict_eq a b"
  by (cases a; cases b; cases c) simp_all

lemma strict_eq_JUndef: "strict_eq JUndef v \<longleftrightarrow> v = JUndef"
  by (cases v) simp_all

lemma strict_eq_truthy_obj:
  "strict_eq (get_prop m k) v \<Longrightarrow> truthy v \<Longrightarrow> \<exists>kvs. m = JObj kvs"
  by (cases m) (auto simp: strict_eq_JUndef)

lemma find_login_credentials:
  assumes "\<forall>x\<in>set xs. \<not> nullish x" and "distinct_logins xs" and "truthy login"
  shows "\<exists>m. find_js (login_is login) xs = Inr m
           \<and> (truthy m \<and> strict_eq senha (get_prop m ''senha'')
                \<longleftrightarrow> (\<exists>r\<in>set xs. credentials_match login senha r))"
  using assms
proof (induction xs)
  case Nil
  then show ?case by simp
next
  case (Cons x xs)
  from Cons.prems have nn: "\<not> nullish x" and nns: "\<forall>x\<in>set xs. \<not> nullish x"
    and dl: "distinct_logins xs"
    and dx: "\<forall>r\<in>set xs. \<not> strict_eq (get_prop x ''login'') (get_prop r ''login'')"
    by (simp_all add: list_all_iff)
  show ?case
  proof (cases "strict_eq (get_prop x ''login'') login")
    case True
    with nn have f: "find_js (login_is login) (x # xs) = Inr x"
      by (simp add: login_is_def)
    from strict_eq_truthy_obj [OF True \<open>truthy login\<close>] have tx: "truthy x" by auto
    have "\<not> credentials_match login senha r" if "r \<in> set xs" for r
      using dx that strict_eq_same [OF True, of "get_prop r ''login''"]
      by (auto simp: credentials_match_def)
    with f tx True show ?thesis by (auto simp: credentials_match_def)
  next
    case False
    with nn have f: "find_js (login_is login) (x # xs) = find_js (login_is login) xs"
      by (simp add: login_is_def)
    from False have "\<not> credentials_match login senha x" by (simp add: credentials_match_def)
    with Cons.IH [OF nns dl \<open>truthy login\<close>] f show ?thesis by auto
  qed
qed

lemma user_of_tipo: "get_prop (to_json (user_of r t)) ''tipo'' = JStr t"
proof -
  let ?kvs = "AList.update ''senha'' JUndef (AList.update ''tipo'' (JStr t) (spread [] r))"
  have g: "get_prop (JObj ?kvs) ''tipo'' = JStr t" by (simp add: update_conv')
  then have "get_prop (to_json (JObj ?kvs)) ''tipo'' = to_json (get_prop (JObj ?kvs) ''tipo'')"
    by (intro get_prop_to_json_present) simp
  with g show ?thesis by (simp add: user_of_def del: to_json.simps(2))
qed

lemma funcionario_user_tipo: "get_prop (to_json (funcionario_user f)) ''tipo'' = JStr ''funcionario''"
  by (simp add: funcionario_user_def)

lemma login_ok_payload:
  "u \<noteq> JUndef \<Longrightarrow>
   payload (res_json (login_ok u)) = JObj [(''success'', JBool True), (''user'', to_json u)]"
  by (simp add: res_json_def login_ok_def)

lemma failure_payload:
  "payload (res_json (failure msg)) = JObj [(''success'', JBool False), (''message'', JStr msg)]"
  by (simp add: res_json_def failure_def)


lemma user_of_not_undef: "user_of r t \<noteq> JUndef" and funcionario_user_not_undef: "funcionario_user f \<noteq> JUndef"
  by (simp_all add: user_of_def funcionario_user_def)

lemma login_funcionarios_result:
  assumes "readJSON st funcionarios_json = JArr funcionarios"
    and "\<forall>x\<in>set funcionarios. \<not> nullish x" and "distinct_logins funcionarios" and "truthy login"
  shows "if \<exists>r\<in>set funcionarios. credentials_match login senha r
         then get_prop (payload (login_funcionarios st login senha)) ''success'' = JBool True
            \<and> get_prop (get_prop (payload (login_funcionarios st login senha)) ''user'') ''tipo''
                = JStr ''funcionario''
         else login_funcionarios st login senha = res_json (failure incorretos)"
proof -
  from find_login_credentials [OF assms(2-4), of senha] obtain m where
    f: "find_js (login_is login) funcionarios = Inr m"
    and iff: "truthy m \<and> strict_eq senha (get_prop m ''senha'')
                \<longleftrightarrow> (\<exists>r\<in>set funcionarios. credentials_match login senha r)"
    by blast
  show ?thesis
  proof (cases "\<exists>r\<in>set funcionarios. credentials_match login senha r")
    case True
    with iff have "truthy m \<and> strict_eq senha (get_prop m ''senha'')" by simp
    then have "login_funcionarios st login senha = res_json (login_ok (funcionario_user m))"
      by (simp add: login_funcionarios_def assms(1) f)
    with True show ?thesis
      by (simp add: login_ok_payload [OF funcionario_user_not_undef] funcionario_user_tipo
          del: to_json.simps)
  next
    case False
    with iff have "\<not> (truthy m \<and> strict_eq senha (get_prop m ''senha''))" by simp
    then have "login_funcionarios st login senha = res_json (failure incorretos)"
      by (auto simp: login_funcionarios_def assms(1) f)
    with False show ?thesis by simp
  qed
qed

lemma login_usuarios_result:
  assumes "readJSON st usuarios_json = JArr usuarios"
    and "\<forall>x\<in>set usuarios. \<not> nullish x" and "distinct_logins usuarios" and "truthy login"
  shows "if \<exists>r\<in>set usuarios. credentials_match login senha r
         then get_prop (payload (login_usuarios st login senha)) ''success'' = JBool True
            \<and> get_prop (get_prop (payload (login_usuarios st login senha)) ''user'') ''tipo''
                = JStr ''tutor''
         else login_usuarios st login senha = login_funcionarios st login senha"
proof -
  from find_login_credentials [OF assms(2-4), of senha] obtain m where
    f: "find_js (login_is login) usuarios = Inr m"
    and iff: "truthy m \<and> strict_eq senha (get_prop m ''senha'')
                \<longleftrightarrow> (\<exists>r\<in>set usuarios. credentials_match login senha r)"
    by blast
  show ?thesis
  proof (cases "\<exists>r\<in>set usuarios. credentials_match login senha r")
    case True
    with iff have "truthy m \<and> strict_eq senha (get_prop m ''senha'')" by simp
    then have "login_usuarios st login senha = res_json (login_ok (user_of m ''tutor''))"
      by (simp add: login_usuarios_def assms(1) f)
    with True show ?thesis
      by (simp add: login_ok_payload [OF user_of_not_undef] user_of_tipo del: to_json.simps)
  next
    case False
    with iff have "\<not> (truthy m \<and> strict_eq senha (get_prop m ''senha''))" by simp
    then have "login_usuarios st login senha = login_funcionarios st login senha"
      by (auto simp: login_usuarios_def assms(1) f)
    with False show ?thesis by simp
  qed
qed

lemma post_login_result:
  assumes "\<not> nullish (body req)"
    and "truthy (get_prop (body req) ''login'')" and "truthy (get_prop (body req) ''senha'')"
    and "readJSON st medicos_json = JArr medicos"
    and "\<forall>x\<in>set medicos. \<not> nullish x" and "distinct_logins medicos"
  shows "if \<exists>r\<in>set medicos. credentials_match (get_prop (body req) ''login'')
                                 (get_prop (body req) ''senha'') r
         then get_prop (payload (post_login st req)) ''success'' = JBool True
            \<and> get_prop (get_prop (payload (post_login st req)) ''user'') ''tipo'' = JStr ''medico''
         else post_login st req
              = login_usuarios st (get_prop (body req) ''login'') (get_prop (body req) ''senha'')"
proof -
  let ?login = "get_prop (body req) ''login''" and ?senha = "get_prop (body req) ''senha''"
  from find_login_credentials [OF assms(5,6,2), of ?senha] obtain m where
    f: "find_js (login_is ?login) medicos = Inr m"
    and iff: "truthy m \<and> strict_eq ?senha (get_prop m ''senha'')
                \<longleftrightarrow> (\<exists>r\<in>set medicos. credentials_match ?login ?senha r)"
    by blast
  show ?thesis
  proof (cases "\<exists>r\<in>set medicos. credentials_match ?login ?senha r")
    case True
    with iff have "truthy m \<and> strict_eq ?senha (get_prop m ''senha'')" by simp
    then have "post_login st req = res_json (login_ok (user_of m ''medico''))"
      using assms(1-3) by (simp add: post_login_def assms(4) f Let_def)
    with True show ?thesis
      by (simp add: login_ok_payload [OF user_of_not_undef] user_of_tipo del: to_json.simps)
  next
    case False
    with iff have "\<not> (truthy m \<and> strict_eq ?senha (get_prop m ''senha''))" by simp
    then have "post_login st req = login_usuarios st ?login ?senha"
      using assms(1-3) by (auto simp: post_login_def assms(4) f Let_def)
    with False show ?thesis by simp
  qed
qed


lemma login_with_credentials:
  assumes b: "\<not> nullish (body req)"
    and l: "login = get_prop (body req) ''login''" and tl: "truthy login"
    and s: "senha = get_prop (body req) ''senha''" and ts: "truthy senha"
    and ms: "readJSON st medicos_json = JArr medicos"
    and us: "readJSON st usuarios_json = JArr usuarios"
    and fs: "readJSON st funcionarios_json = JArr funcionarios"
    and nn: "\<forall>r\<in>set (medicos @ usuarios @ funcionarios). \<not> nullish r"
    and dl: "distinct_logins medicos" "distinct_logins usuarios" "distinct_logins funcionarios"
  shows "(get_prop (payload (post_login st req)) ''success'' = JBool True
          \<longleftrightarrow> (\<exists>r\<in>set (medicos @ usuarios @ funcionarios). credentials_match login senha r))
       \<and> ((\<exists>r\<in>set medicos. credentials_match login senha r) \<longrightarrow>
            get_prop (get_prop (payload (post_login st req)) ''user'') ''tipo'' = JStr ''medico'')
       \<and> (\<not> (\<exists>r\<in>set medicos. credentials_match login senha r)
            \<and> (\<exists>r\<in>set usuarios. credentials_match login senha r) \<longrightarrow>
            get_prop (get_prop (payload (post_login st req)) ''user'') ''tipo'' = JStr ''tutor'')
       \<and> (\<not> (\<exists>r\<in>set medicos. credentials_match login senha r)
            \<and> \<not> (\<exists>r\<in>set usuarios. credentials_match login senha r)
            \<and> (\<exists>r\<in>set funcionarios. credentials_match login senha r) \<longrightarrow>
            get_prop (get_prop (payload (post_login st req)) ''user'') ''tipo''
              = JStr ''funcionario'')
       \<and> (\<not> (\<exists>r\<in>set (medicos @ usuarios @ funcionarios). credentials_match login senha r) \<longrightarrow>
            post_login st req
              = Reply 200 (JObj [(''success'', JBool False), (''message'', JStr incorretos)]))"
proof -
  from nn have nm: "\<forall>x\<in>set medicos. \<not> nullish x" and nu: "\<forall>x\<in>set usuarios. \<not> nullish x"
    and nf: "\<forall>x\<in>set funcionarios. \<not> nullish x" by simp_all
  note M = post_login_result [OF b tl [unfolded l] ts [unfolded s] ms nm dl(1), folded l s]
  note U = login_usuarios_result [OF us nu dl(2) tl, of senha]
  note F = login_funcionarios_result [OF fs nf dl(3) tl, of senha]
  have fail: "res_json (failure incorretos)
      = Reply 200 (JObj [(''success'', JBool False), (''message'', JStr incorretos)])"
    by (simp add: res_json_def failure_def)
  show ?thesis
  proof (cases "\<exists>r\<in>set medicos. credentials_match login senha r")
    case True
    with M show ?thesis by auto
  next
    case nom: False
    with M have pm: "post_login st req = login_usuarios st login senha" by simp
    show ?thesis
    proof (cases "\<exists>r\<in>set usuarios. credentials_match login senha r")
      case True
      with U nom pm show ?thesis by auto
    next
      case nou: False
      with U pm have pu: "post_login st req = login_funcionarios st login senha" by simp
      show ?thesis
      proof (cases "\<exists>r\<in>set funcionarios. credentials_match login senha r")
        case True
        with F nom nou pu show ?thesis by auto
      next
        case False
        with F pu have "post_login st req = res_json (failure incorretos)" by simp
        with False nom nou fail show ?thesis by auto
      qed
    qed
  qed
qed

lemma post_login_guard:
  assumes "\<not> nullish (body req)"
    and "\<not> truthy (get_prop (body req) ''login'') \<or> \<not> truthy (get_prop (body req) ''senha'')"
  shows "post_login st req
         = Reply 200 (JObj [(''success'', JBool False), (''message'', JStr obrigatorios)])"
  using assms by (auto simp: post_login_def Let_def res_json_def failure_def)

text \<open>
  Claim C1, as stated, fails on an empty password. After a staff member's password has
  been set to the empty string (which \<^verbatim>\<open>PUT /api/funcionarios/:id\<close> allows), a login
  with that login and the empty password matches the stored record, login and password,
  and is still refused: the handler rejects a falsy \<^verbatim>\<open>senha\<close> before any lookup.
\<close>

theorem login_rejects_matching_empty_senha:
  "readJSON clinic_senha_vazia funcionarios_json = JArr [set_prop vet_caio ''senha'' (JStr [])]
   \<and> credentials_match (JStr ''caio'') (JStr [])
     (elems (readJSON clinic_senha_vazia funcionarios_json) ! 0)
   \<and> post_login clinic_senha_vazia
        \<lparr>param = [], body = JObj [(''login'', JStr ''caio''), (''senha'', JStr [])], headers = []\<rparr>
       = Reply 200 (JObj [(''success'', JBool False), (''message'', JStr obrigatorios)])"
  by code_simp

text \<open>
  Claim C1, amended. A request whose login or password is falsy (missing or empty) is
  refused with \<^verbatim>\<open>success: false\<close> before any lookup, whatever the files hold. For a
  request whose login and password are both truthy, over collections of records with
  pairwise distinct logins, \<^verbatim>\<open>POST /api/login\<close> succeeds if and only if some record of
  \<^verbatim>\<open>medicos.json\<close>, \<^verbatim>\<open>usuarios.json\<close> or \<^verbatim>\<open>funcionarios.json\<close> has that login and that
  password; the \<^verbatim>\<open>tipo\<close> of the returned user is \<^verbatim>\<open>medico\<close>, \<^verbatim>\<open>tutor\<close> or \<^verbatim>\<open>funcionario\<close>
  by the first collection, in that order, with such a record; and when there is none the
  reply is \<^verbatim>\<open>success: false\<close>.
\<close>

theorem login_succeeds_iff_credentials_match:
  assumes b: "\<not> nullish (body req)"
    and l: "login = get_prop (body req) ''login''"
    and s: "senha = get_prop (body req) ''senha''"
  shows "(\<not> truthy login \<or> \<not> truthy senha \<longrightarrow>
            post_login st req
              = Reply 200 (JObj [(''success'', JBool False), (''message'', JStr obrigatorios)]))
       \<and> (truthy login \<and> truthy senha
           \<and> readJSON st medicos_json = JArr medicos
           \<and> readJSON st usuarios_json = JArr usuarios
           \<and> readJSON st funcionarios_json = JArr funcionarios
           \<and> (\<forall>r\<in>set (medicos @ usuarios @ funcionarios). \<not> nullish r)
           \<and> distinct_logins medicos \<and> distinct_logins usuarios \<and> distinct_logins funcionarios
           \<longrightarrow>
             (get_prop (payload (post_login st req)) ''success'' = JBool True
              \<longleftrightarrow> (\<exists>r\<in>set (medicos @ usuarios @ funcionarios).
                      credentials_match login senha r))
           \<and> ((\<exists>r\<in>set medicos. credentials_match login senha r) \<longrightarrow>
                get_prop (get_prop (payload (post_login st req)) ''user'') ''tipo''
                  = JStr ''medico'')
           \<and> (\<not> (\<exists>r\<in>set medicos. credentials_match login senha r)
                \<and> (\<exists>r\<in>set usuarios. credentials_match login senha r) \<longrightarrow>
                get_prop (get_prop (payload (post_login st req)) ''user'') ''tipo''
                  = JStr ''tutor'')
           \<and> (\<not> (\<exists>r\<in>set medicos. credentials_match login senha r)
                \<and> \<not> (\<exists>r\<in>set usuarios. credentials_match login senha r)
                \<and> (\<exists>r\<in>set funcionarios. credentials_match login senha r) \<longrightarrow>
                get_prop (get_prop (payload (post_login st req)) ''user'') ''tipo''
                  = JStr ''funcionario'')
           \<and> (\<not> (\<exists>r\<in>set (medicos @ usuarios @ funcionarios).
                      credentials_match login senha r) \<longrightarrow>
                post_login st req
                  = Reply 200 (JObj [(''success'', JBool False),
                                     (''message'', JStr incorretos)])))"
proof (intro conjI impI)
  assume "\<not> truthy login \<or> \<not> truthy senha"
  then show "post_login st req
              = Reply 200 (JObj [(''success'', JBool False), (''message'', JStr obrigatorios)])"
    unfolding l s by (rule post_login_guard [OF b])
next
  assume h: "truthy login \<and> truthy senha
           \<and> readJSON st medicos_json = JArr medicos
           \<and> readJSON st usuarios_json = JArr usuarios
           \<and> readJSON st funcionarios_json = JArr funcionarios
           \<and> (\<forall>r\<in>set (medicos @ usuarios @ funcionarios). \<not> nullish r)
           \<and> distinct_logins medicos \<and> distinct_logins usuarios \<and> distinct_logins funcionarios"
  then have tl: "truthy login" and ts: "truthy senha"
    and ms: "readJSON st medicos_json = JArr medicos"
    and us: "readJSON st usuarios_json = JArr usuarios"
    and fs: "readJSON st funcionarios_json = JArr funcionarios"
    and nn: "\<forall>r\<in>set (medicos @ usuarios @ funcionarios). \<not> nullish r"
    and dl: "distinct_logins medicos" "distinct_logins usuarios" "distinct_logins funcionarios"
    by simp_all
  show "get_prop (payload (post_login st req)) ''success'' = JBool True
              \<longleftrightarrow> (\<exists>r\<in>set (medicos @ usuarios @ funcionarios).
                      credentials_match login senha r)"
    using login_with_credentials [OF b l tl s ts ms us fs nn dl] by (rule conjunct1)
  assume "\<exists>r\<in>set medicos. credentials_match login senha r"
  then show "get_prop (get_prop (payload (post_login st req)) ''user'') ''tipo'' = JStr ''medico''"
    using login_with_credentials [OF b l tl s ts ms us fs nn dl] by blast
next
  assume h: "truthy login \<and> truthy senha
           \<and> readJSON st medicos_json = JArr medicos
           \<and> readJSON st usuarios_json = JArr usuarios
           \<and> readJSON st funcionarios_json = JArr funcionarios
           \<and> (\<forall>r\<in>set (medicos @ usuarios @ funcionarios). \<not> nullish r)
           \<and> distinct_logins medicos \<and> distinct_logins usuarios \<and> distinct_logins funcionarios"
  then have tl: "truthy login" and ts: "truthy senha"
    and ms: "readJSON st medicos_json = JArr medicos"
    and us: "readJSON st usuarios_json = JArr usuarios"
    and fs: "readJSON st funcionarios_json = JArr funcionarios"
    and nn: "\<forall>r\<in>set (medicos @ usuarios @ funcionarios). \<not> nullish r"
    and dl: "distinct_logins medicos" "distinct_logins usuarios" "distinct_logins funcionarios"
    by simp_all
  note L = login_with_credentials [OF b l tl s ts ms us fs nn dl]
  {
    assume "\<not> (\<exists>r\<in>set medicos. credentials_match login senha r)
                \<and> (\<exists>r\<in>set usuarios. credentials_match login senha r)"
    then show "get_prop (get_prop (payload (post_login st req)) ''user'') ''tipo'' = JStr ''tutor''"
      using L by blast
  }
  {
    assume "\<not> (\<exists>r\<in>set medicos. credentials_match login senha r)
                \<and> \<not> (\<exists>r\<in>set usuarios. credentials_match login senha r)
                \<and> (\<exists>r\<in>set funcionarios. credentials_match login senha r)"
    then show "get_prop (get_prop (payload (post_login st req)) ''user'') ''tipo''
                  = JStr ''funcionario''"
      using L by blast
  }
  {
    assume "\<not> (\<exists>r\<in>set (medicos @ usuarios @ funcionarios).
                      credentials_match login senha r)"
    then show "post_login st req
                  = Reply 200 (JObj [(''success'', JBool False),
                                     (''message'', JStr incorretos)])"
      using L by blast
  }
qed


theorem login_succeeds_iff_credentials_match_witness:
  "readJSON clinic medicos_json = JArr [dra_ana]
   \<and> readJSON clinic usuarios_json = JArr [tutor_bia]
   \<and> readJSON clinic funcionarios_json = JArr [vet_caio]
   \<and> distinct_logins [dra_ana] \<and> distinct_logins [tutor_bia] \<and> distinct_logins [vet_caio]
   \<and> credentials_match (JStr ''12345678901'') (JStr ''abcdef'') tutor_bia
   \<and> get_prop (payload (post_login clinic
        \<lparr>param = [], body = JObj [(''login'', JStr ''12345678901''), (''senha'', JStr ''abcdef'')],
         headers = []\<rparr>)) ''success'' = JBool True
   \<and> get_prop (get_prop (payload (post_login clinic
        \<lparr>param = [], body = JObj [(''login'', JStr ''12345678901''), (''senha'', JStr ''abcdef'')],
         headers = []\<rparr>)) ''user'') ''tipo'' = JStr ''tutor''
   \<and> post_login clinic
        \<lparr>param = [], body = JObj [(''login'', JStr ''12345678901'')], headers = []\<rparr>
       = Reply 200 (JObj [(''success'', JBool False), (''message'', JStr obrigatorios)])"
proof -
  let ?req = "\<lparr>param = [], body = JObj [(''login'', JStr ''12345678901''), (''senha'', JStr ''abcdef'')],
         headers = []\<rparr>"
  let ?bare = "\<lparr>param = [], body = JObj [(''login'', JStr ''12345678901'')], headers = []\<rparr>"
  have b: "\<not> nullish (body ?req)" by simp
  have l: "JStr ''12345678901'' = get_prop (body ?req) ''login''" by simp
  have s: "JStr ''abcdef'' = get_prop (body ?req) ''senha''" by simp
  have ms: "readJSON clinic medicos_json = JArr [dra_ana]"
    and us: "readJSON clinic usuarios_json = JArr [tutor_bia]"
    and fs: "readJSON clinic funcionarios_json = JArr [vet_caio]"
    by (simp_all add: readJSON_def clinic_def medicos_json_def usuarios_json_def
        funcionarios_json_def animais_json_def)
  have nn: "\<forall>r\<in>set ([dra_ana] @ [tutor_bia] @ [vet_caio]). \<not> nullish r"
    by (simp add: dra_ana_def tutor_bia_def vet_caio_def)
  have dl: "distinct_logins [dra_ana]" "distinct_logins [tutor_bia]" "distinct_logins [vet_caio]"
    by simp_all
  have cm: "credentials_match (JStr ''12345678901'') (JStr ''abcdef'') tutor_bia"
    and ncm: "\<not> credentials_match (JStr ''12345678901'') (JStr ''abcdef'') dra_ana"
    by code_simp+
  note T = login_succeeds_iff_credentials_match [OF b l s, of clinic "[dra_ana]" "[tutor_bia]" "[vet_caio]",
      THEN conjunct2, rule_format]
  have pre: "truthy (JStr ''12345678901'') \<and> truthy (JStr ''abcdef'')
           \<and> readJSON clinic medicos_json = JArr [dra_ana]
           \<and> readJSON clinic usuarios_json = JArr [tutor_bia]
           \<and> readJSON clinic funcionarios_json = JArr [vet_caio]
           \<and> (\<forall>r\<in>set ([dra_ana] @ [tutor_bia] @ [vet_caio]). \<not> nullish r)
           \<and> distinct_logins [dra_ana] \<and> distinct_logins [tutor_bia] \<and> distinct_logins [vet_caio]"
    using ms us fs nn dl by simp
  from T [OF pre] cm ncm
  have ok: "get_prop (payload (post_login clinic ?req)) ''success'' = JBool True"
    and tp: "get_prop (get_prop (payload (post_login clinic ?req)) ''user'') ''tipo'' = JStr ''tutor''"
    by simp_all
  have b': "\<not> nullish (body ?bare)" by simp
  have l': "JStr ''12345678901'' = get_prop (body ?bare) ''login''" by simp
  have s': "JUndef = get_prop (body ?bare) ''senha''" by simp
  from login_succeeds_iff_credentials_match [OF b' l' s', of clinic, THEN conjunct1]
  have g: "post_login clinic ?bare
       = Reply 200 (JObj [(''success'', JBool False), (''message'', JStr obrigatorios)])"
    by simp
  from ms us fs dl cm ok tp g show ?thesis by simp
qed

section \<open>Stored passwords stay in the store\<close>

lemma to_json_keys: "set (keys_of (to_json (JObj kvs))) \<subseteq> fst ` set kvs"
  by (auto simp: keys_of_def)

lemma undef_key_dropped:
  assumes "distinct (map fst kvs)" and "map_of kvs k = Some JUndef"
  shows "k \<notin> set (keys_of (to_json (JObj kvs)))"
proof -
  have "v = JUndef" if "(k, v) \<in> set kvs" for v
    using assms that by (simp add: map_of_is_SomeI)
  then show ?thesis by (auto simp: keys_of_def)
qed

lemma user_of_no_senha: "''senha'' \<notin> set (keys_of (to_json (user_of r t)))"
proof -
  let ?kvs = "AList.update ''senha'' JUndef (AList.update ''tipo'' (JStr t) (spread [] r))"
  have d: "distinct (map fst ?kvs)"
    by (simp add: distinct_update distinct_spread)
  have m: "map_of ?kvs ''senha'' = Some JUndef" by (simp add: update_conv')
  from undef_key_dropped [OF d m] show ?thesis by (simp add: user_of_def del: to_json.simps)
qed

lemma funcionario_user_no_senha: "''senha'' \<notin> set (keys_of (to_json (funcionario_user f)))"
  using to_json_keys [of "[(''id'', get_prop f ''id''), (''nome'', get_prop f ''nome''),
           (''login'', get_prop f ''login''), (''contato'', get_prop f ''contato''),
           (''role'', get_prop f ''role''), (''tipo'', JStr ''funcionario'')]"]
  by (auto simp: funcionario_user_def simp del: to_json.simps)

lemma no_user_no_senha:
  "''senha'' \<notin> set (keys_of (get_prop (payload res_500) ''user''))"
  "''senha'' \<notin> set (keys_of (get_prop (payload (res_json (failure msg))) ''user''))"
  "''senha'' \<notin> set (keys_of (get_prop (payload NoReply) ''user''))"
  by (simp_all add: res_500_def res_json_def failure_def keys_of_def)

lemma keys_of_JUndef: "keys_of JUndef = []"
  by (simp add: keys_of_def)

lemma login_ok_no_senha:
  assumes "u \<noteq> JUndef" and "''senha'' \<notin> set (keys_of (to_json u))"
  shows "''senha'' \<notin> set (keys_of (get_prop (payload (res_json (login_ok u))) ''user''))"
  using assms by (simp add: login_ok_payload del: to_json.simps)

lemma login_funcionarios_no_senha:
  "''senha'' \<notin> set (keys_of (get_prop (payload (login_funcionarios st login senha)) ''user''))"
  by (simp add: login_funcionarios_def no_user_no_senha
      login_ok_no_senha [OF funcionario_user_not_undef funcionario_user_no_senha]
      split: sum.splits)

lemma login_usuarios_no_senha:
  "''senha'' \<notin> set (keys_of (get_prop (payload (login_usuarios st login senha)) ''user''))"
  by (simp add: login_usuarios_def no_user_no_senha login_funcionarios_no_senha
      login_ok_no_senha [OF user_of_not_undef user_of_no_senha]
      split: sum.splits)

lemma post_login_no_senha:
  "''senha'' \<notin> set (keys_of (get_prop (payload (post_login st req)) ''user''))"
  by (simp add: post_login_def Let_def no_user_no_senha login_usuarios_no_senha keys_of_JUndef
      login_ok_no_senha [OF user_of_not_undef user_of_no_senha]
      split: sum.splits)


lemma map_js_safe_funcionario:
  "map_js safe_funcionario xs = Inr ys \<Longrightarrow>
   \<forall>y\<in>set ys. \<exists>i n l c r v. y = JObj [(''id'', i), (''nome'', n), (''login'', l),
                                         (''contato'', c), (''role'', r), (''crmv'', v)]"
proof (induction xs arbitrary: ys)
  case Nil
  then show ?case by simp
next
  case (Cons x xs)
  then show ?case
    by (auto simp: safe_funcionario_def split: if_splits sum.splits)
qed

lemma to_json_success_with:
  "v \<noteq> JUndef \<Longrightarrow>
   to_json (JObj [(''success'', JBool True), (k, v)]) = JObj [(''success'', JBool True), (k, to_json v)]"
  by simp

lemma get_funcionarios_keys:
  "\<forall>f\<in>set (elems (get_prop (payload (get_funcionarios st)) ''funcionarios'')).
     set (keys_of f) \<subseteq> {''id'', ''nome'', ''login'', ''contato'', ''role'', ''crmv''}"
proof (cases "as_array (readJSON st funcionarios_json)")
  case (Inl e)
  then show ?thesis by (simp add: get_funcionarios_def res_500_def failure_def)
next
  case (Inr xs)
  show ?thesis
  proof (cases "map_js safe_funcionario xs")
    case (Inl e)
    with Inr show ?thesis by (simp add: get_funcionarios_def res_500_def failure_def)
  next
    case (Inr ys)
    have "\<forall>f\<in>set (map (\<lambda>y. if y = JUndef then JNull else to_json y) ys).
        set (keys_of f) \<subseteq> {''id'', ''nome'', ''login'', ''contato'', ''role'', ''crmv''}"
    proof
      fix f assume "f \<in> set (map (\<lambda>y. if y = JUndef then JNull else to_json y) ys)"
      then obtain y where "y \<in> set ys" and f: "f = (if y = JUndef then JNull else to_json y)"
        by auto
      with map_js_safe_funcionario [OF Inr] obtain i n l c r v where
        y: "y = JObj [(''id'', i), (''nome'', n), (''login'', l),
                      (''contato'', c), (''role'', r), (''crmv'', v)]"
        by blast
      show "set (keys_of f) \<subseteq> {''id'', ''nome'', ''login'', ''contato'', ''role'', ''crmv''}"
        unfolding f y
        using to_json_keys [of "[(''id'', i), (''nome'', n), (''login'', l),
                      (''contato'', c), (''role'', r), (''crmv'', v)]"]
        by (auto simp del: to_json.simps)
    qed
    with Inr \<open>as_array (readJSON st funcionarios_json) = Inr xs\<close> show ?thesis
      by (simp add: get_funcionarios_def res_json_def to_json_success_with
          del: to_json.simps(2) set_map)
  qed
qed


lemma senha_variant_cases:
  assumes "senha_variant senha x y"
  shows "(x = y \<and> (\<forall>kvs. x \<noteq> JObj kvs))
       \<or> (\<exists>a b. x = JObj a \<and> y = JObj b \<and> AList.delete ''senha'' a = AList.delete ''senha'' b)"
  using assms by (cases x; cases y) (simp_all add: senha_variant_def)

lemma get_prop_delete_other:
  "k \<noteq> k' \<Longrightarrow> get_prop (delete_prop v k') k = get_prop v k"
  by (cases v) simp_all

lemma senha_variant_get_prop:
  assumes "senha_variant senha x y" and "k \<noteq> ''senha''"
  shows "get_prop x k = get_prop y k"
proof -
  from assms(1) have "delete_prop x ''senha'' = delete_prop y ''senha''"
    by (simp add: senha_variant_def)
  then have "get_prop (delete_prop x ''senha'') k = get_prop (delete_prop y ''senha'') k"
    by simp
  with assms(2) show ?thesis by (simp add: get_prop_delete_other)
qed

lemma senha_variant_nullish: "senha_variant senha x y \<Longrightarrow> nullish x = nullish y"
  using senha_variant_cases [of senha x y] by auto

lemma senha_variant_truthy: "senha_variant senha x y \<Longrightarrow> truthy x = truthy y"
  using senha_variant_cases [of senha x y] by auto

lemma senha_variant_check:
  "senha_variant senha x y \<Longrightarrow>
   strict_eq senha (get_prop x ''senha'') = strict_eq senha (get_prop y ''senha'')"
  by (simp add: senha_variant_def)

lemma senha_variant_JUndef: "senha_variant senha JUndef JUndef"
  by (simp add: senha_variant_def)

lemma find_js_variants:
  assumes "list_all2 (senha_variant senha) xs ys"
  shows "(\<exists>e. find_js (login_is login) xs = Inl e \<and> find_js (login_is login) ys = Inl e)
       \<or> (\<exists>m1 m2. find_js (login_is login) xs = Inr m1 \<and> find_js (login_is login) ys = Inr m2
             \<and> senha_variant senha m1 m2)"
  using assms
proof (induction rule: list_all2_induct)
  case Nil
  then show ?case by (simp add: senha_variant_JUndef)
next
  case (Cons x xs y ys)
  have "login_is login x = login_is login y"
    using senha_variant_nullish [OF Cons.hyps(1)] senha_variant_get_prop [OF Cons.hyps(1), of "''login''"]
    by (simp add: login_is_def)
  with Cons show ?case
    by (cases "login_is login y") (auto split: bool.splits)
qed

lemma delete_fold_update:
  "AList.delete k (fold (\<lambda>kv a. AList.update (fst kv) (snd kv) a) ps acc)
   = fold (\<lambda>kv a. AList.update (fst kv) (snd kv) a) (AList.delete k ps) (AList.delete k acc)"
proof (induction ps arbitrary: acc)
  case Nil
  show ?case by simp
next
  case (Cons p ps)
  show ?case
  proof (cases "fst p = k")
    case True
    then show ?thesis by (simp add: Cons.IH delete_update_same)
  next
    case False
    then have "AList.delete k (AList.update (fst p) (snd p) acc)
               = AList.update (fst p) (snd p) (AList.delete k acc)"
      by (simp add: delete_update)
    with False show ?thesis by (simp add: Cons.IH)
  qed
qed

lemma to_json_update_undef:
  "distinct (map fst kvs) \<Longrightarrow>
   to_json (JObj (AList.update k JUndef kvs)) = to_json (JObj (AList.delete k kvs))"
proof (induction kvs)
  case Nil
  show ?case by simp
next
  case (Cons p ps)
  then show ?case by (cases "fst p = k") auto
qed

lemma to_json_user_of:
  "to_json (user_of (JObj a) t)
   = to_json (JObj (AList.update ''tipo'' (JStr t)
       (fold (\<lambda>kv acc. AList.update (fst kv) (snd kv) acc) (AList.delete ''senha'' a) [])))"
proof -
  let ?X = "AList.update ''tipo'' (JStr t) (spread [] (JObj a))"
  have d: "distinct (map fst ?X)" by (simp add: distinct_update distinct_spread)
  have "AList.delete ''senha'' ?X
        = AList.update ''tipo'' (JStr t)
            (fold (\<lambda>kv acc. AList.update (fst kv) (snd kv) acc) (AList.delete ''senha'' a) [])"
    by (simp add: delete_update spread_def delete_fold_update)
  with to_json_update_undef [OF d, of "''senha''"] show ?thesis
    by (simp add: user_of_def del: to_json.simps)
qed

lemma user_of_variants:
  assumes "senha_variant senha m1 m2"
  shows "to_json (user_of m1 t) = to_json (user_of m2 t)"
proof -
  from senha_variant_cases [OF assms] consider "m1 = m2"
    | a b where "m1 = JObj a" "m2 = JObj b" "AList.delete ''senha'' a = AList.delete ''senha'' b"
    by blast
  then show ?thesis
  proof cases
    case 1
    then show ?thesis by simp
  next
    case 2
    then show ?thesis by (simp only: to_json_user_of)
  qed
qed

lemma funcionario_user_variants:
  assumes "senha_variant senha m1 m2"
  shows "funcionario_user m1 = funcionario_user m2"
  using senha_variant_get_prop [OF assms] by (simp add: funcionario_user_def)

lemma map_js_variants:
  assumes "list_all2 (senha_variant senha) xs ys"
  shows "map_js safe_funcionario xs = map_js safe_funcionario ys"
  using assms
proof (induction rule: list_all2_induct)
  case Nil
  show ?case by simp
next
  case (Cons x xs y ys)
  have "safe_funcionario x = safe_funcionario y"
    using senha_variant_nullish [OF Cons.hyps(1)] senha_variant_get_prop [OF Cons.hyps(1)]
    by (simp add: safe_funcionario_def)
  with Cons.IH show ?case by (simp split: sum.splits)
qed


lemma senha_variants_cases:
  assumes "senha_variants senha v w"
  shows "v = w \<or> (\<exists>xs ys. v = JArr xs \<and> w = JArr ys \<and> list_all2 (senha_variant senha) xs ys)"
  using assms by (cases v; cases w) simp_all

lemma res_json_login_ok:
  "u \<noteq> JUndef \<Longrightarrow>
   res_json (login_ok u) = Reply 200 (JObj [(''success'', JBool True), (''user'', to_json u)])"
  by (simp add: res_json_def login_ok_def)

lemma login_funcionarios_variants:
  assumes "senha_variants senha (readJSON st1 funcionarios_json) (readJSON st2 funcionarios_json)"
  shows "login_funcionarios st1 login senha = login_funcionarios st2 login senha"
  using senha_variants_cases [OF assms]
proof (elim disjE exE conjE)
  assume "readJSON st1 funcionarios_json = readJSON st2 funcionarios_json"
  then show ?thesis by (simp add: login_funcionarios_def)
next
  fix xs ys
  assume x: "readJSON st1 funcionarios_json = JArr xs" and y: "readJSON st2 funcionarios_json = JArr ys"
    and v: "list_all2 (senha_variant senha) xs ys"
  from find_js_variants [OF v, of login] show ?thesis
  proof (elim disjE exE conjE)
    fix e assume "find_js (login_is login) xs = Inl e" "find_js (login_is login) ys = Inl e"
    then show ?thesis by (simp add: login_funcionarios_def x y)
  next
    fix m1 m2
    assume "find_js (login_is login) xs = Inr m1" "find_js (login_is login) ys = Inr m2"
      and m: "senha_variant senha m1 m2"
    then show ?thesis
      using senha_variant_truthy [OF m] senha_variant_check [OF m] funcionario_user_variants [OF m]
      by (simp add: login_funcionarios_def x y)
  qed
qed

lemma login_usuarios_variants:
  assumes "senha_variants senha (readJSON st1 usuarios_json) (readJSON st2 usuarios_json)"
    and f: "login_funcionarios st1 login senha = login_funcionarios st2 login senha"
  shows "login_usuarios st1 login senha = login_usuarios st2 login senha"
  using senha_variants_cases [OF assms(1)]
proof (elim disjE exE conjE)
  assume "readJSON st1 usuarios_json = readJSON st2 usuarios_json"
  then show ?thesis by (simp add: login_usuarios_def f split: sum.splits)
next
  fix xs ys
  assume x: "readJSON st1 usuarios_json = JArr xs" and y: "readJSON st2 usuarios_json = JArr ys"
    and v: "list_all2 (senha_variant senha) xs ys"
  from find_js_variants [OF v, of login] show ?thesis
  proof (elim disjE exE conjE)
    fix e assume "find_js (login_is login) xs = Inl e" "find_js (login_is login) ys = Inl e"
    then show ?thesis by (simp add: login_usuarios_def x y)
  next
    fix m1 m2
    assume "find_js (login_is login) xs = Inr m1" "find_js (login_is login) ys = Inr m2"
      and m: "senha_variant senha m1 m2"
    then show ?thesis
      using senha_variant_truthy [OF m] senha_variant_check [OF m]
        user_of_variants [OF m, of "''tutor''"]
      by (simp add: login_usuarios_def x y f res_json_login_ok [OF user_of_not_undef]
          del: to_json.simps)
  qed
qed

lemma post_login_variants:
  assumes "senha_variants (get_prop (body req) ''senha'')
             (readJSON st1 medicos_json) (readJSON st2 medicos_json)"
    and u: "login_usuarios st1 (get_prop (body req) ''login'') (get_prop (body req) ''senha'')
            = login_usuarios st2 (get_prop (body req) ''login'') (get_prop (body req) ''senha'')"
  shows "post_login st1 req = post_login st2 req"
  using senha_variants_cases [OF assms(1)]
proof (elim disjE exE conjE)
  assume "readJSON st1 medicos_json = readJSON st2 medicos_json"
  then show ?thesis by (simp add: post_login_def u Let_def split: sum.splits)
next
  fix xs ys
  let ?login = "get_prop (body req) ''login''" and ?senha = "get_prop (body req) ''senha''"
  assume x: "readJSON st1 medicos_json = JArr xs" and y: "readJSON st2 medicos_json = JArr ys"
    and v: "list_all2 (senha_variant ?senha) xs ys"
  from find_js_variants [OF v, of ?login] show ?thesis
  proof (elim disjE exE conjE)
    fix e assume "find_js (login_is ?login) xs = Inl e" "find_js (login_is ?login) ys = Inl e"
    then show ?thesis by (simp add: post_login_def x y Let_def)
  next
    fix m1 m2
    assume "find_js (login_is ?login) xs = Inr m1" "find_js (login_is ?login) ys = Inr m2"
      and m: "senha_variant ?senha m1 m2"
    then show ?thesis
      using senha_variant_truthy [OF m] senha_variant_check [OF m]
        user_of_variants [OF m, of "''medico''"]
      by (simp add: post_login_def x y u res_json_login_ok [OF user_of_not_undef] Let_def
          del: to_json.simps)
  qed
qed

lemma get_funcionarios_variants:
  assumes "senha_variants senha (readJSON st1 funcionarios_json) (readJSON st2 funcionarios_json)"
  shows "get_funcionarios st1 = get_funcionarios st2"
  using senha_variants_cases [OF assms]
proof (elim disjE exE conjE)
  assume "readJSON st1 funcionarios_json = readJSON st2 funcionarios_json"
  then show ?thesis by (simp add: get_funcionarios_def)
next
  fix xs ys
  assume x: "readJSON st1 funcionarios_json = JArr xs" and y: "readJSON st2 funcionarios_json = JArr ys"
    and v: "list_all2 (senha_variant senha) xs ys"
  from map_js_variants [OF v] show ?thesis
    by (simp add: get_funcionarios_def x y)
qed

lemma map_js_safe_funcionario_total:
  assumes "\<forall>f\<in>set xs. \<not> nullish f"
  shows "\<exists>ys. map_js safe_funcionario xs = Inr ys \<and> length ys = length xs
           \<and> (\<forall>i<length xs. safe_funcionario (xs ! i) = Inr (ys ! i))"
  using assms
proof (induction xs)
  case Nil
  show ?case by simp
next
  case (Cons x xs)
  then obtain ys where ys: "map_js safe_funcionario xs = Inr ys" "length ys = length xs"
    "\<forall>i<length xs. safe_funcionario (xs ! i) = Inr (ys ! i)" by auto
  from Cons.prems obtain y where y: "safe_funcionario x = Inr y"
    by (auto simp: safe_funcionario_def)
  have "\<forall>i<length (x # xs). safe_funcionario ((x # xs) ! i) = Inr ((y # ys) ! i)"
    using ys(3) y by (auto simp: nth_Cons split: nat.splits)
  with ys y show ?case by simp
qed

lemma safe_funcionario_fields:
  assumes "safe_funcionario f = Inr y" and "json_ok f"
    and "k \<in> {''id'', ''nome'', ''login'', ''contato'', ''role'', ''crmv''}"
  shows "get_prop (to_json y) k = get_prop f k"
proof -
  let ?six = "[(''id'', get_prop f ''id''), (''nome'', get_prop f ''nome''),
               (''login'', get_prop f ''login''), (''contato'', get_prop f ''contato''),
               (''role'', get_prop f ''role''), (''crmv'', get_prop f ''crmv'')]"
  from assms(1) have y: "y = JObj ?six"
    by (auto simp: safe_funcionario_def split: if_splits)
  have d: "distinct (map fst ?six)" by simp
  have "get_prop (JObj ?six) k = get_prop f k"
    using assms(3) by auto
  with get_prop_to_json_obj [OF d, of k] to_json_get_prop [OF assms(2), of k]
  show ?thesis by (simp only: y)
qed

lemma get_funcionarios_projection:
  assumes arr: "readJSON st funcionarios_json = JArr funcionarios"
    and ok: "json_ok (JArr funcionarios)"
    and nn: "\<forall>f\<in>set funcionarios. \<not> nullish f"
  shows "\<exists>safe. get_funcionarios st
                  = Reply 200 (JObj [(''success'', JBool True), (''funcionarios'', JArr safe)])
           \<and> length safe = length funcionarios
           \<and> (\<forall>i<length funcionarios.
                \<forall>k\<in>{''id'', ''nome'', ''login'', ''contato'', ''role'', ''crmv''}.
                  get_prop (safe ! i) k = get_prop (funcionarios ! i) k)"
proof -
  from map_js_safe_funcionario_total [OF nn] obtain ys where
    m: "map_js safe_funcionario funcionarios = Inr ys" and len: "length ys = length funcionarios"
    and each: "\<forall>i<length funcionarios. safe_funcionario (funcionarios ! i) = Inr (ys ! i)"
    by blast
  let ?safe = "map (\<lambda>y. if y = JUndef then JNull else to_json y) ys"
  have ne: "ys ! i \<noteq> JUndef" if "i < length funcionarios" for i
    using each that by (auto simp: safe_funcionario_def split: if_splits)
  have "get_funcionarios st
          = Reply 200 (JObj [(''success'', JBool True), (''funcionarios'', JArr ?safe)])"
    by (simp add: get_funcionarios_def arr m res_json_def)
  moreover have "length ?safe = length funcionarios" by (simp add: len)
  moreover have "get_prop (?safe ! i) k = get_prop (funcionarios ! i) k"
    if i: "i < length funcionarios"
      and k: "k \<in> {''id'', ''nome'', ''login'', ''contato'', ''role'', ''crmv''}" for i k
  proof -
    from each i have s: "safe_funcionario (funcionarios ! i) = Inr (ys ! i)" by simp
    from ok i have okf: "json_ok (funcionarios ! i)" by (simp add: list_all_length)
    from safe_funcionario_fields [OF s okf k] ne [OF i] i len show ?thesis
      by (simp del: to_json.simps)
  qed
  ultimately show ?thesis by blast
qed

text \<open>
  Claim C8. No reply of \<^verbatim>\<open>POST /api/login\<close> or \<^verbatim>\<open>GET /api/funcionarios\<close> reveals a stored
  password: the user of a login reply has no \<^verbatim>\<open>senha\<close> property; every record that
  \<^verbatim>\<open>GET /api/funcionarios\<close> returns has no property other than \<^verbatim>\<open>id\<close>, \<^verbatim>\<open>nome\<close>, \<^verbatim>\<open>login\<close>,
  \<^verbatim>\<open>contato\<close>, \<^verbatim>\<open>role\<close> and \<^verbatim>\<open>crmv\<close>, which read as in the stored record; and two stores
  whose records differ only in the stored passwords, the password of the request passing
  for the same records in both, give the same replies to both operations.
\<close>

theorem stored_senha_not_revealed:
  "''senha'' \<notin> set (keys_of (get_prop (payload (post_login st req)) ''user''))
   \<and> (\<forall>f\<in>set (elems (get_prop (payload (get_funcionarios st)) ''funcionarios'')).
         set (keys_of f) \<subseteq> {''id'', ''nome'', ''login'', ''contato'', ''role'', ''crmv''})
   \<and> (senha_variants (get_prop (body req) ''senha'')
         (readJSON st medicos_json) (readJSON st' medicos_json)
       \<and> senha_variants (get_prop (body req) ''senha'')
           (readJSON st usuarios_json) (readJSON st' usuarios_json)
       \<and> senha_variants (get_prop (body req) ''senha'')
           (readJSON st funcionarios_json) (readJSON st' funcionarios_json)
       \<longrightarrow> post_login st req = post_login st' req \<and> get_funcionarios st = get_funcionarios st')
   \<and> (readJSON st funcionarios_json = JArr funcionarios \<and> json_ok (JArr funcionarios)
       \<and> (\<forall>f\<in>set funcionarios. \<not> nullish f)
       \<longrightarrow> (\<exists>safe. get_funcionarios st
                  = Reply 200 (JObj [(''success'', JBool True), (''funcionarios'', JArr safe)])
             \<and> length safe = length funcionarios
             \<and> (\<forall>i<length funcionarios.
                  \<forall>k\<in>{''id'', ''nome'', ''login'', ''contato'', ''role'', ''crmv''}.
                    get_prop (safe ! i) k = get_prop (funcionarios ! i) k)))"
proof (intro conjI impI)
  show "''senha'' \<notin> set (keys_of (get_prop (payload (post_login st req)) ''user''))"
    by (rule post_login_no_senha)
  show "\<forall>f\<in>set (elems (get_prop (payload (get_funcionarios st)) ''funcionarios'')).
         set (keys_of f) \<subseteq> {''id'', ''nome'', ''login'', ''contato'', ''role'', ''crmv''}"
    by (rule get_funcionarios_keys)
next
  assume v: "senha_variants (get_prop (body req) ''senha'')
         (readJSON st medicos_json) (readJSON st' medicos_json)
       \<and> senha_variants (get_prop (body req) ''senha'')
           (readJSON st usuarios_json) (readJSON st' usuarios_json)
       \<and> senha_variants (get_prop (body req) ''senha'')
           (readJSON st funcionarios_json) (readJSON st' funcionarios_json)"
  then have m: "senha_variants (get_prop (body req) ''senha'')
         (readJSON st medicos_json) (readJSON st' medicos_json)"
    and u: "senha_variants (get_prop (body req) ''senha'')
           (readJSON st usuarios_json) (readJSON st' usuarios_json)"
    and f: "senha_variants (get_prop (body req) ''senha'')
           (readJSON st funcionarios_json) (readJSON st' funcionarios_json)"
    by simp_all
  show "post_login st req = post_login st' req"
    by (rule post_login_variants [OF m login_usuarios_variants [OF u login_funcionarios_variants [OF f]]])
  show "get_funcionarios st = get_funcionarios st'"
    by (rule get_funcionarios_variants [OF f])
next
  assume "readJSON st funcionarios_json = JArr funcionarios \<and> json_ok (JArr funcionarios)
       \<and> (\<forall>f\<in>set funcionarios. \<not> nullish f)"
  then show "\<exists>safe. get_funcionarios st
                  = Reply 200 (JObj [(''success'', JBool True), (''funcionarios'', JArr safe)])
             \<and> length safe = length funcionarios
             \<and> (\<forall>i<length funcionarios.
                  \<forall>k\<in>{''id'', ''nome'', ''login'', ''contato'', ''role'', ''crmv''}.
                    get_prop (safe ! i) k = get_prop (funcionarios ! i) k)"
    using get_funcionarios_projection [of st funcionarios] by blast
qed


theorem stored_senha_not_revealed_witness:
  "senha_variants (JStr ''errada'')
     (readJSON clinic medicos_json) (readJSON clinic_outras_senhas medicos_json)
   \<and> senha_variants (JStr ''errada'')
     (readJSON clinic usuarios_json) (readJSON clinic_outras_senhas usuarios_json)
   \<and> senha_variants (JStr ''errada'')
     (readJSON clinic funcionarios_json) (readJSON clinic_outras_senhas funcionarios_json)
   \<and> readJSON clinic medicos_json \<noteq> readJSON clinic_outras_senhas medicos_json
   \<and> post_login clinic
        \<lparr>param = [], body = JObj [(''login'', JStr ''ana''), (''senha'', JStr ''errada'')], headers = []\<rparr>
       = post_login clinic_outras_senhas
        \<lparr>param = [], body = JObj [(''login'', JStr ''ana''), (''senha'', JStr ''errada'')], headers = []\<rparr>
   \<and> get_funcionarios clinic = get_funcionarios clinic_outras_senhas
   \<and> get_prop (payload (post_login clinic
        \<lparr>param = [], body = JObj [(''login'', JStr ''ana''), (''senha'', JStr ''segredo'')], headers = []\<rparr>))
        ''success'' = JBool True
   \<and> ''senha'' \<notin> set (keys_of (get_prop (payload (post_login clinic
        \<lparr>param = [], body = JObj [(''login'', JStr ''ana''), (''senha'', JStr ''segredo'')], headers = []\<rparr>))
        ''user''))"
proof -
  let ?bad = "\<lparr>param = [], body = JObj [(''login'', JStr ''ana''), (''senha'', JStr ''errada'')], headers = []\<rparr>"
  let ?good = "\<lparr>param = [], body = JObj [(''login'', JStr ''ana''), (''senha'', JStr ''segredo'')], headers = []\<rparr>"
  have m: "senha_variants (JStr ''errada'')
     (readJSON clinic medicos_json) (readJSON clinic_outras_senhas medicos_json)"
    and u: "senha_variants (JStr ''errada'')
     (readJSON clinic usuarios_json) (readJSON clinic_outras_senhas usuarios_json)"
    and f: "senha_variants (JStr ''errada'')
     (readJSON clinic funcionarios_json) (readJSON clinic_outras_senhas funcionarios_json)"
    by code_simp+
  have d: "readJSON clinic medicos_json \<noteq> readJSON clinic_outras_senhas medicos_json"
    by code_simp
  have s: "get_prop (payload (post_login clinic ?good)) ''success'' = JBool True"
    by code_simp
  have b: "get_prop (body ?bad) ''senha'' = JStr ''errada''"
    by simp
  from stored_senha_not_revealed [of clinic ?bad clinic_outras_senhas "[]"] m u f
  have "post_login clinic ?bad = post_login clinic_outras_senhas ?bad"
    and "get_funcionarios clinic = get_funcionarios clinic_outras_senhas"
    unfolding b by blast+
  moreover from stored_senha_not_revealed [of clinic ?good clinic "[]"]
  have "''senha'' \<notin> set (keys_of (get_prop (payload (post_login clinic ?good)) ''user''))"
    by blast
  ultimately show ?thesis using m u f d s by blast
qed

end
